theory Spec2Isabelle
  imports Complex_Main "HOL-Library.AList"
begin

section \<open>Values, exceptions and effects\<close>

text \<open>
  The repository holds two scripts, \<^verbatim>\<open>testnet.py\<close> and \<^verbatim>\<open>troubleshoot.py\<close>, the
  second a reworked copy of the first. Functions that are the same text in both files are
  embedded once; functions that differ are embedded twice, with the file name as prefix.

  Numbers: Python's \<^verbatim>\<open>int\<close> is \<open>int\<close>. The listing prices and the scores computed
  from them are rationals, with \<open>None\<close> standing for an absent value (\<^verbatim>\<open>None\<close>, which
  pandas stores as \<^verbatim>\<open>NaN\<close> in a numeric column); their arithmetic is exact. The wallet
  balance and the spending limit are computed as the code computes them, in double
  precision.
\<close>

type_synonym py_float = "rat option"

definition float_mul :: "py_float \<Rightarrow> rat \<Rightarrow> py_float" where
  "float_mul x c = map_option (\<lambda>v. v * c) x"

definition float_sub :: "py_float \<Rightarrow> py_float \<Rightarrow> py_float" where
  "float_sub x y = (case x of None \<Rightarrow> None | Some a \<Rightarrow> map_option (\<lambda>b. a - b) y)"

text \<open>The comparison \<^verbatim>\<open>x > 0\<close>; it is false on \<^verbatim>\<open>NaN\<close>.\<close>

definition float_gt_zero :: "py_float \<Rightarrow> bool" where
  "float_gt_zero x = (case x of None \<Rightarrow> False | Some a \<Rightarrow> 0 < a)"

text \<open>
  Exceptions. \<open>KeyError k\<close> is the subscript of a missing key or column \<open>k\<close>;
  \<open>Raised m\<close> is an exception raised by a call into \<^verbatim>\<open>requests\<close> or \<^verbatim>\<open>web3\<close>, with
  \<^verbatim>\<open>str(e)\<close> equal to \<open>m\<close>.
\<close>

datatype exn = KeyError string | Raised string

fun str_exn :: "exn \<Rightarrow> string" where
  "str_exn (KeyError k) = [CHR 0x27] @ k @ [CHR 0x27]"
| "str_exn (Raised m) = m"

subsection \<open>Double precision\<close>

text \<open>The number of binary digits of a positive integer.\<close>

function bitlen :: "int \<Rightarrow> nat" where
  "bitlen n = (if n \<le> 0 then 0 else Suc (bitlen (n div 2)))"
  by pat_completeness auto
termination
  by (relation "measure nat") auto

declare bitlen.simps [simp del]

definition pow2 :: "int \<Rightarrow> rat" where
  "pow2 e = (if 0 \<le> e then 2 ^ nat e else 1 / 2 ^ nat (- e))"

text \<open>
  The double nearest to a rational, ties to the even significand: with
  \<open>2^e \<le> |x| < 2^(e+1)\<close>, the value is rounded to a multiple of \<open>2^(e-52)\<close>. The range
  of the exponent is not limited here; the operations below raise where Python does.
\<close>

definition round_double :: "rat \<Rightarrow> rat" where
  "round_double x =
     (if x = 0 then 0
      else
        let a = \<bar>x\<bar>;
            d = (if 1 \<le> a then int (bitlen \<lfloor>a\<rfloor>) - 1
                 else - int (bitlen \<lfloor>1 / a\<rfloor>));
            e = (if pow2 (d + 1) \<le> a then d + 1 else d);
            u = pow2 (e - 52);
            m = \<lfloor>a / u\<rfloor>;
            r = a / u - of_int m;
            m' = (if 1 / 2 < r \<or> (r = 1 / 2 \<and> odd m) then m + 1 else m)
        in sgn x * of_int m' * u)"

text \<open>
  The conversion of an \<^verbatim>\<open>int\<close> to a \<^verbatim>\<open>float\<close>, which Python applies to the left
  operand of \<^verbatim>\<open>int * float\<close>; the product of two floats; the true division \<^verbatim>\<open>int / int\<close>.
\<close>

definition float_of_int :: "int \<Rightarrow> exn + rat" where
  "float_of_int i =
     (let f = round_double (of_int i)
      in if 2 ^ 1024 \<le> \<bar>f\<bar> then Inl (Raised ''int too large to convert to float'')
         else Inr f)"

definition float_times :: "rat \<Rightarrow> rat \<Rightarrow> rat" where
  "float_times x y = round_double (x * y)"

definition int_times_float :: "int \<Rightarrow> rat \<Rightarrow> exn + rat" where
  "int_times_float i y =
     (case float_of_int i of Inl e \<Rightarrow> Inl e | Inr f \<Rightarrow> Inr (float_times f y))"

definition int_true_div :: "int \<Rightarrow> int \<Rightarrow> exn + rat" where
  "int_true_div i j =
     (if j = 0 then Inl (Raised ''division by zero'')
      else
        let f = round_double (of_int i / of_int j)
        in if 2 ^ 1024 \<le> \<bar>f\<bar>
           then Inl (Raised ''integer division result too large for a float'')
           else Inr f)"

text \<open>
  What \<^verbatim>\<open>Web3.fromWei(number, 'ether')\<close> returns: the \<^verbatim>\<open>int\<close> 0 for 0, and otherwise a
  \<^verbatim>\<open>decimal.Decimal\<close>, the exact quotient by \<open>10^18\<close>. The library refuses a number
  outside \<open>0 .. 2^256 - 1\<close>. A \<^verbatim>\<open>Decimal\<close> cannot be multiplied by a \<^verbatim>\<open>float\<close>: Python
  raises \<^verbatim>\<open>TypeError\<close>.
\<close>

datatype py_num = PyInt int | PyDecimal rat

fun num_value :: "py_num \<Rightarrow> rat" where
  "num_value (PyInt i) = of_int i"
| "num_value (PyDecimal d) = d"

definition Web3_fromWei :: "rat \<Rightarrow> exn + py_num" where
  "Web3_fromWei number =
     (if number = 0 then Inr (PyInt 0)
      else if number < 0 \<or> 2 ^ 256 - 1 < number
      then Inl (Raised ''value must be between 1 and 2**256 - 1'')
      else Inr (PyDecimal (number / 10 ^ 18)))"

definition Decimal_times_float_error :: exn where
  "Decimal_times_float_error =
     Raised (''unsupported operand type(s) for *: '' @ [CHR 0x27] @ ''decimal.Decimal'' @
             [CHR 0x27] @ '' and '' @ [CHR 0x27] @ ''float'' @ [CHR 0x27])"

definition num_times_float :: "py_num \<Rightarrow> rat \<Rightarrow> exn + rat" where
  "num_times_float x y =
     (case x of
        PyInt i \<Rightarrow> int_times_float i y
      | PyDecimal d \<Rightarrow> Inl Decimal_times_float_error)"

subsection \<open>Effects\<close>

text \<open>
  The transaction dictionary of \<^verbatim>\<open>execute_buy\<close>: keys in insertion order, each with
  an address or a number.
\<close>

datatype tx_value = Address string | Quantity int

type_synonym transaction = "(string \<times> tx_value) list"

text \<open>
  The query of a listing request, as far as it changes between requests: the offset and
  \<^verbatim>\<open>price_max\<close> in \<^verbatim>\<open>testnet.py\<close>, the cursor (absent on the first request) in
  \<^verbatim>\<open>troubleshoot.py\<close>.
\<close>

datatype request = OffsetRequest nat rat | CursorRequest "string option"

record sell_order_payload =
  asset_token_id :: string
  asset_token_address :: string
  start_amount :: py_float
  expiration_time :: int

datatype log_msg =
    Using_cached
  | Wallet_balance rat rat
  | Api_call_failed int
  | Fetched_new
  | Price_exceeds_limit py_float
  | Executed_buy string string
  | Updated_balance rat
  | Failed_to_execute exn
  | Relisted string py_float string
  | Relist_status string int string
  | Relist_error exn
  | Starting_monitoring
  | Retrieved nat
  | Found_with_traits nat
  | Identified nat
  | Purchased string py_float
  | Successfully_relisted
  | Failed_relist_token string
  | Cycle_complete
  | Unexpected_error exn

text \<open>
  What the program does to the outside, in order: every call to the chain node, every
  HTTP request, every sleep and every log line.
\<close>

datatype event =
    GetBalance
  | HttpGet request
  | Sleep nat
  | GetTransactionCount
  | EstimateGas transaction
  | SignTransaction transaction
  | SendRawTransaction string
  | HttpPost sell_order_payload
  | LogInfo log_msg
  | LogError log_msg

text \<open>
  A computation yields the events it caused and either the exception it raised or its
  value.
\<close>

type_synonym 'a io = "event list \<times> (exn + 'a)"

definition io_return :: "'a \<Rightarrow> 'a io" where
  "io_return x = ([], Inr x)"

definition io_bind :: "'a io \<Rightarrow> ('a \<Rightarrow> 'b io) \<Rightarrow> 'b io" where
  "io_bind m f =
     (case m of
        (ev, Inl e) \<Rightarrow> (ev, Inl e)
      | (ev, Inr x) \<Rightarrow> (case f x of (ev', r) \<Rightarrow> (ev @ ev', r)))"

text \<open>An external call: it is recorded, and returns or raises as the outside decides.\<close>

definition io_call :: "event \<Rightarrow> exn + 'a \<Rightarrow> 'a io" where
  "io_call ev r = ([ev], r)"

definition io_emit :: "event \<Rightarrow> unit io" where
  "io_emit ev = ([ev], Inr ())"

definition io_pure :: "exn + 'a \<Rightarrow> 'a io" where
  "io_pure r = ([], r)"

text \<open>\<^verbatim>\<open>try: m except Exception as e: h(e)\<close>.\<close>

definition io_try :: "'a io \<Rightarrow> (exn \<Rightarrow> 'a io) \<Rightarrow> 'a io" where
  "io_try m h =
     (case m of
        (ev, Inl e) \<Rightarrow> (case h e of (ev', r) \<Rightarrow> (ev @ ev', r))
      | (ev, Inr x) \<Rightarrow> (ev, Inr x))"

text \<open>
  A loop over requests may never end; \<open>None\<close> is the run that has not returned when the
  recorded answers of the outside are used up.
\<close>

definition io_prepend :: "event list \<Rightarrow> 'a io option \<Rightarrow> 'a io option" where
  "io_prepend ev m = map_option (\<lambda>(ev', r). (ev @ ev', r)) m"

subsection \<open>Module constants\<close>

definition PROFIT_THRESHOLD :: rat where
  "PROFIT_THRESHOLD = 2 / 10"

definition SPENDING_LIMIT_PERCENTAGE :: rat where
  "SPENDING_LIMIT_PERCENTAGE = 25 / 100"

text \<open>Times are seconds, as rationals; \<^verbatim>\<open>timedelta(minutes=10)\<close> is 600 seconds.\<close>

type_synonym datetime = rat

definition CACHE_EXPIRATION :: rat where
  "CACHE_EXPIRATION = 600"

definition RATE_LIMIT_DELAY :: nat where
  "RATE_LIMIT_DELAY = 1"

subsection \<open>Listings and data frames\<close>

text \<open>
  One row of the listing table, as \<^verbatim>\<open>fetch_trending_nfts\<close> builds it. The rows of
  \<^verbatim>\<open>testnet.py\<close> carry one more column, \<^verbatim>\<open>traits\<close>, a dictionary from trait type to value.
\<close>

record nft =
  name :: string
  token_id :: string
  collection :: string
  contract_address :: string
  floor_price :: py_float

record nft_traits = nft +
  traits :: "string \<rightharpoonup> string"

text \<open>
  A \<^verbatim>\<open>pandas.DataFrame\<close> of such rows. \<^verbatim>\<open>pd.DataFrame([])\<close>, built from an empty list
  of dictionaries, has no rows and no columns either: subscripting it with a column name
  raises \<^verbatim>\<open>KeyError\<close>. That frame is \<open>EmptyFrame\<close>. A frame built from at least one row,
  and every frame obtained from it by a boolean mask (even with no row left), has the
  columns of its rows: that is \<open>Frame rows\<close>.
\<close>

datatype 'a dataframe = EmptyFrame | Frame "'a list"

definition pd_DataFrame :: "'a list \<Rightarrow> 'a dataframe" where
  "pd_DataFrame nft_list = (if nft_list = [] then EmptyFrame else Frame nft_list)"

fun rows :: "'a dataframe \<Rightarrow> 'a list" where
  "rows EmptyFrame = []"
| "rows (Frame rs) = rs"

definition df_len :: "'a dataframe \<Rightarrow> nat" where
  "df_len df = length (rows df)"

definition df_empty :: "'a dataframe \<Rightarrow> bool" where
  "df_empty df = (rows df = [])"

text \<open>
  A row after \<^verbatim>\<open>calculate_profitability\<close>: the row it was given, and the two columns
  the function adds.
\<close>

record 'r scored =
  listing :: 'r
  potential_profit :: py_float
  profit_margin :: py_float

section \<open>Scoring\<close>

text \<open>
  \<^verbatim>\<open>calculate_profitability\<close> (the same text in both files). The arithmetic is
  column-wise; a row whose \<^verbatim>\<open>floor_price\<close> is absent gets absent values in both new
  columns. On the frame without columns, \<^verbatim>\<open>df['floor_price']\<close> raises.
\<close>

definition calculate_profitability ::
  "('a nft_scheme) dataframe \<Rightarrow> exn + ('a nft_scheme) scored dataframe" where
  "calculate_profitability df =
     (case df of
        EmptyFrame \<Rightarrow> Inl (KeyError ''floor_price'')
      | Frame rs \<Rightarrow>
          Inr (Frame (map (\<lambda>r.
            let pp = float_mul (floor_price r) (1 + PROFIT_THRESHOLD);
                pm = float_sub pp (floor_price r)
            in \<lparr>listing = r, potential_profit = pp, profit_margin = pm\<rparr>) rs)))"

text \<open>
  The selection \<^verbatim>\<open>profitable_nfts[profitable_nfts['profit_margin'] > 0]\<close> that
  \<^verbatim>\<open>monitor_and_trade\<close> applies to the scored frame.
\<close>

definition profitable_nfts :: "'r scored dataframe \<Rightarrow> exn + 'r scored dataframe" where
  "profitable_nfts df =
     (case df of
        EmptyFrame \<Rightarrow> Inl (KeyError ''profit_margin'')
      | Frame rs \<Rightarrow> Inr (Frame (filter (\<lambda>s. float_gt_zero (profit_margin s)) rs)))"

section \<open>Wallet\<close>

text \<open>
  \<^verbatim>\<open>get_wallet_balance\<close>: the balance in wei, read from the node, converted to ether. The
  argument is what the node answers to this read. \<^verbatim>\<open>testnet.py\<close> converts with
  \<^verbatim>\<open>Web3.fromWei(balance, 'ether')\<close>, \<^verbatim>\<open>troubleshoot.py\<close> with \<^verbatim>\<open>balance / 10**18\<close>.
\<close>

definition testnet_get_wallet_balance :: "exn + int \<Rightarrow> py_num io" where
  "testnet_get_wallet_balance answer =
     io_bind (io_call GetBalance answer) (\<lambda>balance. io_pure (Web3_fromWei (of_int balance)))"

definition troubleshoot_get_wallet_balance :: "exn + int \<Rightarrow> rat io" where
  "troubleshoot_get_wallet_balance answer =
     io_bind (io_call GetBalance answer) (\<lambda>balance. io_pure (int_true_div balance (10 ^ 18)))"

section \<open>Listing retrieval and its cache\<close>

text \<open>
  One asset record of a response page, with the fields the code reads. Response bodies are
  taken as well formed: every key the code subscripts is there. \<open>current_price\<close> is the
  \<^verbatim>\<open>current_price\<close> of the first sell order, a decimal string of wei given here by its
  value, and \<open>None\<close> when that order has no such key. The name is always there, so the
  default of \<^verbatim>\<open>asset.get('name', 'Unknown')\<close> in \<^verbatim>\<open>troubleshoot.py\<close> is never taken.
\<close>

record asset =
  asset_name :: string
  asset_token :: string
  asset_collection :: string
  asset_contract :: string
  asset_trait_list :: "(string \<times> string) list"
  current_price :: "nat option"

record page =
  assets :: "asset list"
  next_cursor :: "string option"

text \<open>The answer to one \<^verbatim>\<open>requests.get\<close>: a status code and a body, or an exception.\<close>

datatype http_result = Response int page | RequestFailed exn

definition wei_to_eth :: "nat option \<Rightarrow> py_float" where
  "wei_to_eth fp = map_option (\<lambda>p. of_nat p / 10 ^ 18) fp"

text \<open>
  The dictionary appended to \<^verbatim>\<open>nft_list\<close> for one asset. In the dictionary comprehension
  of \<^verbatim>\<open>testnet.py\<close> a later trait of the same type replaces an earlier one.
\<close>

definition troubleshoot_row :: "asset \<Rightarrow> nft" where
  "troubleshoot_row a =
     \<lparr>name = asset_name a, token_id = asset_token a, collection = asset_collection a,
      contract_address = asset_contract a, floor_price = wei_to_eth (current_price a)\<rparr>"

definition testnet_row :: "asset \<Rightarrow> nft_traits" where
  "testnet_row a =
     \<lparr>name = asset_name a, token_id = asset_token a, collection = asset_collection a,
      contract_address = asset_contract a, floor_price = wei_to_eth (current_price a),
      traits = map_of (rev (asset_trait_list a))\<rparr>"

text \<open>
  The \<^verbatim>\<open>while True\<close> loop of \<^verbatim>\<open>fetch_trending_nfts\<close> in \<^verbatim>\<open>testnet.py\<close>: offset paging.
  The first argument is the list of answers the marketplace gives to the requests of this
  loop, in order; \<open>nft_list\<close> is the list built so far.
\<close>

fun testnet_pages ::
  "http_result list \<Rightarrow> rat \<Rightarrow> nat \<Rightarrow> nft_traits list \<Rightarrow> (nft_traits list) io option" where
  "testnet_pages [] price_max offset nft_list = None"
| "testnet_pages (RequestFailed e # answers) price_max offset nft_list =
     Some ([HttpGet (OffsetRequest offset price_max)], Inl e)"
| "testnet_pages (Response status_code data # answers) price_max offset nft_list =
     (if status_code = 200 then
        (if assets data = [] then
           Some ([HttpGet (OffsetRequest offset price_max)], Inr nft_list)
         else
           io_prepend [HttpGet (OffsetRequest offset price_max), Sleep RATE_LIMIT_DELAY]
             (testnet_pages answers price_max (offset + 50)
                (nft_list @ map testnet_row (assets data))))
      else
        Some ([HttpGet (OffsetRequest offset price_max), LogError (Api_call_failed status_code)],
              Inr nft_list))"

text \<open>
  The loop of \<^verbatim>\<open>troubleshoot.py\<close>: cursor paging. It ends on an empty page, on a page
  without a \<^verbatim>\<open>next\<close> cursor (an empty string counts as none), and on a status other
  than 200.
\<close>

fun troubleshoot_pages ::
  "http_result list \<Rightarrow> string option \<Rightarrow> nft list \<Rightarrow> (nft list) io option" where
  "troubleshoot_pages [] cursor nft_list = None"
| "troubleshoot_pages (RequestFailed e # answers) cursor nft_list =
     Some ([HttpGet (CursorRequest cursor)], Inl e)"
| "troubleshoot_pages (Response status_code data # answers) cursor nft_list =
     (if status_code = 200 then
        (if assets data = [] then
           Some ([HttpGet (CursorRequest cursor)], Inr nft_list)
         else
           (case next_cursor data of
              None \<Rightarrow>
                Some ([HttpGet (CursorRequest cursor)],
                      Inr (nft_list @ map troubleshoot_row (assets data)))
            | Some c \<Rightarrow>
                if c = [] then
                  Some ([HttpGet (CursorRequest cursor)],
                        Inr (nft_list @ map troubleshoot_row (assets data)))
                else
                  io_prepend [HttpGet (CursorRequest cursor)]
                    (troubleshoot_pages answers (Some c)
                       (nft_list @ map troubleshoot_row (assets data)))))
      else
        Some ([HttpGet (CursorRequest cursor), LogError (Api_call_failed status_code)],
              Inr nft_list))"

text \<open>
  The module-level dictionary \<^verbatim>\<open>CACHE\<close>, with its two keys; \<open>None\<close> is a key that is
  not in the dictionary.
\<close>

record 'a cache =
  trending_nfts :: "'a dataframe option"
  last_fetched :: "datetime option"

definition empty_cache :: "'a cache" where
  "empty_cache = \<lparr>trending_nfts = None, last_fetched = None\<rparr>"

text \<open>
  The test \<^verbatim>\<open>'trending_nfts' in CACHE and (current_time - CACHE['last_fetched'] <
  CACHE_EXPIRATION)\<close>, giving the cached frame when it holds.
\<close>

definition cache_check :: "'a cache \<Rightarrow> datetime \<Rightarrow> exn + 'a dataframe option" where
  "cache_check CACHE current_time =
     (case trending_nfts CACHE of
        None \<Rightarrow> Inr None
      | Some df \<Rightarrow>
          (case last_fetched CACHE of
             None \<Rightarrow> Inl (KeyError ''last_fetched'')
           | Some t \<Rightarrow>
               Inr (if current_time - t < CACHE_EXPIRATION then Some df else None)))"

text \<open>
  What the outside answers during one call of \<^verbatim>\<open>fetch_trending_nfts\<close>: the balance read
  and the listing requests.
\<close>

record fetch_world =
  balance_answer :: "exn + int"
  page_answers :: "http_result list"

text \<open>
  \<^verbatim>\<open>fetch_trending_nfts\<close>. \<open>current_time\<close> is \<^verbatim>\<open>datetime.now()\<close>, read once on entry.
  The result is the cache after the call and the computation's events and value; \<open>None\<close>
  when the paging loop does not end within the recorded answers. In \<^verbatim>\<open>testnet.py\<close> the
  product \<^verbatim>\<open>wallet_balance * SPENDING_LIMIT_PERCENTAGE\<close> has the result of
  \<^verbatim>\<open>Web3.fromWei\<close> as its left operand, so it raises for every balance but 0; in
  \<^verbatim>\<open>troubleshoot.py\<close> it is a product of two floats.
\<close>

definition testnet_fetch_trending_nfts ::
  "nft_traits cache \<Rightarrow> datetime \<Rightarrow> fetch_world \<Rightarrow>
     (nft_traits cache \<times> nft_traits dataframe io) option" where
  "testnet_fetch_trending_nfts CACHE current_time w =
     (case cache_check CACHE current_time of
        Inl e \<Rightarrow> Some (CACHE, ([], Inl e))
      | Inr (Some df) \<Rightarrow> Some (CACHE, ([LogInfo Using_cached], Inr df))
      | Inr None \<Rightarrow>
          (case testnet_get_wallet_balance (balance_answer w) of
             (ev, Inl e) \<Rightarrow> Some (CACHE, (ev, Inl e))
           | (ev, Inr wallet_balance) \<Rightarrow>
               (case num_times_float wallet_balance SPENDING_LIMIT_PERCENTAGE of
                  Inl e \<Rightarrow> Some (CACHE, (ev, Inl e))
                | Inr max_spending_limit \<Rightarrow>
                    (let ev1 = ev @ [LogInfo (Wallet_balance (num_value wallet_balance)
                                                max_spending_limit)]
                     in case testnet_pages (page_answers w) max_spending_limit 0 [] of
                          None \<Rightarrow> None
                        | Some (ev2, Inl e) \<Rightarrow> Some (CACHE, (ev1 @ ev2, Inl e))
                        | Some (ev2, Inr nft_list) \<Rightarrow>
                            (let nft_data = pd_DataFrame nft_list
                             in Some (\<lparr>trending_nfts = Some nft_data,
                                        last_fetched = Some current_time\<rparr>,
                                      (ev1 @ ev2 @ [LogInfo Fetched_new], Inr nft_data)))))))"

definition troubleshoot_fetch_trending_nfts ::
  "nft cache \<Rightarrow> datetime \<Rightarrow> fetch_world \<Rightarrow> (nft cache \<times> nft dataframe io) option" where
  "troubleshoot_fetch_trending_nfts CACHE current_time w =
     (case cache_check CACHE current_time of
        Inl e \<Rightarrow> Some (CACHE, ([], Inl e))
      | Inr (Some df) \<Rightarrow> Some (CACHE, ([LogInfo Using_cached], Inr df))
      | Inr None \<Rightarrow>
          (case troubleshoot_get_wallet_balance (balance_answer w) of
             (ev, Inl e) \<Rightarrow> Some (CACHE, (ev, Inl e))
           | (ev, Inr wallet_balance) \<Rightarrow>
               (let max_spending_limit = float_times wallet_balance SPENDING_LIMIT_PERCENTAGE;
                    ev1 = ev @ [LogInfo (Wallet_balance wallet_balance max_spending_limit)]
                in case troubleshoot_pages (page_answers w) None [] of
                     None \<Rightarrow> None
                   | Some (ev2, Inl e) \<Rightarrow> Some (CACHE, (ev1 @ ev2, Inl e))
                   | Some (ev2, Inr nft_list) \<Rightarrow>
                       (let nft_data = pd_DataFrame nft_list
                        in Some (\<lparr>trending_nfts = Some nft_data,
                                   last_fetched = Some current_time\<rparr>,
                                 (ev1 @ ev2 @ [LogInfo Fetched_new], Inr nft_data))))))"

section \<open>Trait filter\<close>

text \<open>
  \<^verbatim>\<open>filter_by_traits\<close> (\<^verbatim>\<open>testnet.py\<close> only). \<open>desired_traits\<close> is the list of the items
  of the dictionary. \<^verbatim>\<open>item in traits.items()\<close> holds when the key is in \<^verbatim>\<open>traits\<close>
  with an equal value. On the frame without columns, \<^verbatim>\<open>df['traits']\<close> raises. On a
  frame with columns and no row, \<^verbatim>\<open>apply\<close> yields an empty series that is not a boolean
  mask; \<^verbatim>\<open>df[...]\<close> then selects the columns it names, none, and the result has no
  columns.
\<close>

definition filter_by_traits ::
  "nft_traits dataframe \<Rightarrow> (string \<times> string) list \<Rightarrow> exn + nft_traits dataframe" where
  "filter_by_traits df desired_traits =
     (case df of
        EmptyFrame \<Rightarrow> Inl (KeyError ''traits'')
      | Frame rs \<Rightarrow>
          if rs = [] then Inr EmptyFrame
          else
            Inr (Frame (filter
              (\<lambda>r. list_all (\<lambda>item. traits r (fst item) = Some (snd item)) desired_traits)
              rs)))"

section \<open>Buying\<close>

text \<open>
  \<^verbatim>\<open>Web3.toWei(price, 'ether')\<close>: the price times \<open>10^18\<close>, rounded down. The library
  refuses a value that is not a number or that is outside \<open>0 .. 2^256 - 1\<close>; the texts
  of these two exceptions play no role in what follows.
\<close>

definition Web3_toWei :: "py_float \<Rightarrow> exn + int" where
  "Web3_toWei price =
     (case price of
        None \<Rightarrow> Inl (Raised ''InvalidOperation'')
      | Some p \<Rightarrow>
          (let v = \<lfloor>p * 10 ^ 18\<rfloor>
           in if v < 0 \<or> 2 ^ 256 - 1 < v
              then Inl (Raised ''Resulting wei value must be between 1 and 2**256 - 1'')
              else Inr v))"

text \<open>
  What the node answers during one call of \<^verbatim>\<open>execute_buy\<close>: the balance read on entry,
  the transaction count, the gas estimate (\<^verbatim>\<open>troubleshoot.py\<close> only), the signature (the
  raw bytes of the signed transaction), the hash returned by the broadcast, and the balance
  read for the last log line.
\<close>

record buy_world =
  buy_balance_answer :: "exn + int"
  nonce_answer :: "exn + int"
  estimate_gas_answer :: "transaction \<Rightarrow> exn + int"
  sign_answer :: "transaction \<Rightarrow> exn + string"
  send_answer :: "string \<Rightarrow> exn + string"
  balance_after_answer :: "exn + int"

text \<open>
  \<^verbatim>\<open>execute_buy\<close> of \<^verbatim>\<open>testnet.py\<close>. \<open>wallet_address\<close> is the module-level variable of
  that name. There is no \<^verbatim>\<open>try\<close>: an exception of a node call leaves the function.
  The spending limit is the product of the \<^verbatim>\<open>int\<close> balance and the float 0.25, and the
  comparison of the \<^verbatim>\<open>int\<close> price with it is exact. The message of the error log line
  contains \<^verbatim>\<open>Web3.fromWei(spending_limit, 'ether')\<close>, evaluated before the line is logged.
\<close>

definition testnet_execute_buy ::
  "string \<Rightarrow> buy_world \<Rightarrow> string \<Rightarrow> py_float \<Rightarrow> string io" where
  "testnet_execute_buy wallet_address w tok price =
     io_bind (io_call GetBalance (buy_balance_answer w)) (\<lambda>wallet_balance.
     io_bind (io_pure (Web3_toWei price)) (\<lambda>price_in_wei.
     io_bind (io_pure (int_times_float wallet_balance SPENDING_LIMIT_PERCENTAGE))
       (\<lambda>spending_limit.
     if of_int price_in_wei > spending_limit then
       io_bind (io_pure (Web3_fromWei spending_limit)) (\<lambda>_.
       io_bind (io_emit (LogError (Price_exceeds_limit price))) (\<lambda>_.
       io_return ''Exceeds spending limit''))
     else
       io_bind (io_call GetTransactionCount (nonce_answer w)) (\<lambda>nonce.
       let transaction =
             [(''from'', Address wallet_address),
              (''value'', Quantity price_in_wei),
              (''gas'', Quantity 200000),
              (''gasPrice'', Quantity (50 * 10 ^ 9)),
              (''nonce'', Quantity nonce)] in
       io_bind (io_call (SignTransaction transaction) (sign_answer w transaction)) (\<lambda>raw.
       io_bind (io_call (SendRawTransaction raw) (send_answer w raw)) (\<lambda>tx_hash.
       io_bind (io_emit (LogInfo (Executed_buy tok tx_hash))) (\<lambda>_.
       io_bind (testnet_get_wallet_balance (balance_after_answer w)) (\<lambda>b.
       io_bind (io_emit (LogInfo (Updated_balance (num_value b)))) (\<lambda>_.
       io_return tx_hash)))))))))"

text \<open>
  \<^verbatim>\<open>execute_buy\<close> of \<^verbatim>\<open>troubleshoot.py\<close>: the same, with a gas estimate that replaces
  the value under \<^verbatim>\<open>'gas'\<close>, and all of it inside \<^verbatim>\<open>try ... except Exception as e\<close>,
  which logs and returns \<^verbatim>\<open>str(e)\<close>.
\<close>

definition troubleshoot_execute_buy ::
  "string \<Rightarrow> buy_world \<Rightarrow> string \<Rightarrow> py_float \<Rightarrow> string io" where
  "troubleshoot_execute_buy wallet_address w tok price =
     io_try
      (io_bind (io_call GetBalance (buy_balance_answer w)) (\<lambda>wallet_balance.
       io_bind (io_pure (Web3_toWei price)) (\<lambda>price_in_wei.
       io_bind (io_pure (int_times_float wallet_balance SPENDING_LIMIT_PERCENTAGE))
         (\<lambda>spending_limit.
       if of_int price_in_wei > spending_limit then
         io_bind (io_emit (LogError (Price_exceeds_limit price))) (\<lambda>_.
         io_return ''Exceeds spending limit'')
       else
         io_bind (io_call GetTransactionCount (nonce_answer w)) (\<lambda>nonce.
         let transaction =
               [(''from'', Address wallet_address),
                (''value'', Quantity price_in_wei),
                (''gas'', Quantity 200000),
                (''gasPrice'', Quantity (50 * 10 ^ 9)),
                (''nonce'', Quantity nonce)] in
         io_bind (io_call (EstimateGas transaction) (estimate_gas_answer w transaction))
           (\<lambda>gas_estimate.
         let transaction = AList.update ''gas'' (Quantity gas_estimate) transaction in
         io_bind (io_call (SignTransaction transaction) (sign_answer w transaction)) (\<lambda>raw.
         io_bind (io_call (SendRawTransaction raw) (send_answer w raw)) (\<lambda>tx_hash.
         io_bind (io_emit (LogInfo (Executed_buy tok tx_hash))) (\<lambda>_.
         io_bind (troubleshoot_get_wallet_balance (balance_after_answer w)) (\<lambda>b.
         io_bind (io_emit (LogInfo (Updated_balance b))) (\<lambda>_.
         io_return tx_hash)))))))))))
      (\<lambda>e. io_bind (io_emit (LogError (Failed_to_execute e))) (\<lambda>_. io_return (str_exn e)))"

section \<open>Relisting\<close>

text \<open>
  The answer to the \<^verbatim>\<open>requests.post\<close> of \<^verbatim>\<open>relist_nft\<close>: status code, the body as JSON
  (a dictionary, given by its items) and the body as text; or an exception.
  \<open>time_answer\<close> is \<^verbatim>\<open>int(time.time())\<close>.
\<close>

record post_response =
  post_status :: int
  post_json :: "(string \<times> string) list"
  post_text :: string

record relist_world =
  time_answer :: int
  post_answer :: "exn + post_response"

text \<open>What \<^verbatim>\<open>relist_nft\<close> returns: the order record, the response text, or \<^verbatim>\<open>None\<close>.\<close>

datatype relist_value = Order "(string \<times> string) list" | Text string | NoValue

fun truthy :: "relist_value \<Rightarrow> bool" where
  "truthy (Order items) = (items \<noteq> [])"
| "truthy (Text t) = (t \<noteq> [])"
| "truthy NoValue = False"

definition testnet_relist_nft ::
  "relist_world \<Rightarrow> string \<Rightarrow> py_float \<Rightarrow> string \<Rightarrow> relist_value io" where
  "testnet_relist_nft w tok resale_price contract =
     (let payload = \<lparr>asset_token_id = tok, asset_token_address = contract,
                     start_amount = resale_price, expiration_time = time_answer w + 86400\<rparr>
      in io_bind (io_call (HttpPost payload) (post_answer w)) (\<lambda>response.
         if post_status response = 200 then
           io_bind (io_emit (LogInfo (Relisted tok resale_price contract))) (\<lambda>_.
           io_return (Order (post_json response)))
         else
           io_bind (io_emit (LogError
                      (Relist_status tok (post_status response) (post_text response)))) (\<lambda>_.
           io_return (Text (post_text response)))))"

definition troubleshoot_relist_nft ::
  "relist_world \<Rightarrow> string \<Rightarrow> py_float \<Rightarrow> string \<Rightarrow> relist_value io" where
  "troubleshoot_relist_nft w tok resale_price contract =
     (let payload = \<lparr>asset_token_id = tok, asset_token_address = contract,
                     start_amount = resale_price, expiration_time = time_answer w + 86400\<rparr>
      in io_try
          (io_bind (io_call (HttpPost payload) (post_answer w)) (\<lambda>response.
           if post_status response = 200 then
             io_bind (io_emit (LogInfo (Relisted tok resale_price contract))) (\<lambda>_.
             io_return (Order (post_json response)))
           else
             io_bind (io_emit (LogError
                        (Relist_status tok (post_status response) (post_text response)))) (\<lambda>_.
             io_return (Text (post_text response)))))
          (\<lambda>e. io_bind (io_emit (LogError (Relist_error e))) (\<lambda>_. io_return NoValue)))"

section \<open>The trade loop\<close>

text \<open>
  What the outside answers during one pass of the \<^verbatim>\<open>while True\<close> loop of
  \<^verbatim>\<open>monitor_and_trade\<close>: the clock, and the answers to the fetch, to the buy and to the
  relist of that pass.
\<close>

record cycle_world =
  now_answer :: datetime
  fetch_answers :: fetch_world
  buy_answers :: buy_world
  relist_answers :: relist_world

text \<open>
  One pass of the loop of \<^verbatim>\<open>testnet.py\<close>, from \<^verbatim>\<open>"Starting trend monitoring..."\<close> to
  the \<^verbatim>\<open>time.sleep(60)\<close>. The frame returned by the fetch is never \<^verbatim>\<open>None\<close>, so the
  body of \<^verbatim>\<open>if trending_nfts is not None\<close> always runs.
\<close>

definition testnet_cycle ::
  "string \<Rightarrow> nft_traits cache \<Rightarrow> cycle_world \<Rightarrow> (nft_traits cache \<times> unit io) option" where
  "testnet_cycle wallet_address CACHE w =
     (case testnet_fetch_trending_nfts CACHE (now_answer w) (fetch_answers w) of
        None \<Rightarrow> None
      | Some (CACHE', fetched) \<Rightarrow>
          Some (CACHE',
            io_bind (io_emit (LogInfo Starting_monitoring)) (\<lambda>_.
            io_bind fetched (\<lambda>trending.
            io_bind (io_emit (LogInfo (Retrieved (df_len trending)))) (\<lambda>_.
            io_bind (io_pure (filter_by_traits trending [(''Background'', ''Gold'')]))
              (\<lambda>filtered_nfts.
            io_bind (io_emit (LogInfo (Found_with_traits (df_len filtered_nfts)))) (\<lambda>_.
            io_bind (io_pure (calculate_profitability filtered_nfts)) (\<lambda>scored_nfts.
            io_bind (io_pure (profitable_nfts scored_nfts)) (\<lambda>profitable.
            io_bind (io_emit (LogInfo (Identified (df_len profitable)))) (\<lambda>_.
            io_bind
              (case rows profitable of
                 [] \<Rightarrow> io_return ()
               | top_nft # _ \<Rightarrow>
                   io_bind (testnet_execute_buy wallet_address (buy_answers w)
                              (token_id (listing top_nft)) (floor_price (listing top_nft)))
                     (\<lambda>tx_hash.
                   if tx_hash \<noteq> ''Exceeds spending limit'' then
                     io_bind (io_emit (LogInfo (Purchased (token_id (listing top_nft))
                                                  (floor_price (listing top_nft))))) (\<lambda>_.
                     io_bind (testnet_relist_nft (relist_answers w)
                                (token_id (listing top_nft)) (potential_profit top_nft)
                                (contract_address (listing top_nft))) (\<lambda>relist_response.
                     io_return ()))
                   else io_return ())) (\<lambda>_.
            io_bind (io_emit (LogInfo Cycle_complete)) (\<lambda>_.
            io_emit (Sleep 60)))))))))))))"

text \<open>
  One pass of the loop of \<^verbatim>\<open>troubleshoot.py\<close>: no trait filter, the body guarded by
  \<^verbatim>\<open>not trending_nfts.empty\<close>, and a log line for the relist result.
\<close>

definition troubleshoot_cycle ::
  "string \<Rightarrow> nft cache \<Rightarrow> cycle_world \<Rightarrow> (nft cache \<times> unit io) option" where
  "troubleshoot_cycle wallet_address CACHE w =
     (case troubleshoot_fetch_trending_nfts CACHE (now_answer w) (fetch_answers w) of
        None \<Rightarrow> None
      | Some (CACHE', fetched) \<Rightarrow>
          Some (CACHE',
            io_bind (io_emit (LogInfo Starting_monitoring)) (\<lambda>_.
            io_bind fetched (\<lambda>trending.
            io_bind
              (if \<not> df_empty trending then
                 io_bind (io_emit (LogInfo (Retrieved (df_len trending)))) (\<lambda>_.
                 io_bind (io_pure (calculate_profitability trending)) (\<lambda>scored_nfts.
                 io_bind (io_pure (profitable_nfts scored_nfts)) (\<lambda>profitable.
                 io_bind (io_emit (LogInfo (Identified (df_len profitable)))) (\<lambda>_.
                 case rows profitable of
                   [] \<Rightarrow> io_return ()
                 | top_nft # _ \<Rightarrow>
                     io_bind (troubleshoot_execute_buy wallet_address (buy_answers w)
                                (token_id (listing top_nft)) (floor_price (listing top_nft)))
                       (\<lambda>tx_hash.
                     if tx_hash \<noteq> ''Exceeds spending limit'' then
                       io_bind (io_emit (LogInfo (Purchased (token_id (listing top_nft))
                                                    (floor_price (listing top_nft))))) (\<lambda>_.
                       io_bind (troubleshoot_relist_nft (relist_answers w)
                                  (token_id (listing top_nft)) (potential_profit top_nft)
                                  (contract_address (listing top_nft))) (\<lambda>relist_response.
                       if truthy relist_response
                       then io_emit (LogInfo Successfully_relisted)
                       else io_emit (LogError
                              (Failed_relist_token (token_id (listing top_nft))))))
                     else io_return ())))))
               else io_return ()) (\<lambda>_.
            io_bind (io_emit (LogInfo Cycle_complete)) (\<lambda>_.
            io_emit (Sleep 60)))))))"

text \<open>
  \<^verbatim>\<open>monitor_and_trade\<close>. The loop has no exit of its own. The argument lists the answers
  of the outside pass by pass; \<open>Running\<close> is the loop still at work after the last recorded
  pass. In \<^verbatim>\<open>testnet.py\<close> only \<^verbatim>\<open>KeyboardInterrupt\<close> is handled, so an exception ends the
  process with a traceback (\<open>Crashed\<close>); in \<^verbatim>\<open>troubleshoot.py\<close> the handler
  \<^verbatim>\<open>except Exception\<close> logs it and calls \<^verbatim>\<open>sys.exit(1)\<close>. An interrupt signal is
  asynchronous and is not part of this model.
\<close>

datatype process = Running | Exited int | Crashed exn

fun testnet_monitor_and_trade ::
  "string \<Rightarrow> nft_traits cache \<Rightarrow> cycle_world list \<Rightarrow> (event list \<times> process) option" where
  "testnet_monitor_and_trade wallet_address CACHE [] = Some ([], Running)"
| "testnet_monitor_and_trade wallet_address CACHE (w # ws) =
     (case testnet_cycle wallet_address CACHE w of
        None \<Rightarrow> None
      | Some (CACHE', (ev, Inl e)) \<Rightarrow> Some (ev, Crashed e)
      | Some (CACHE', (ev, Inr _)) \<Rightarrow>
          map_option (\<lambda>(ev', p). (ev @ ev', p))
            (testnet_monitor_and_trade wallet_address CACHE' ws))"

fun troubleshoot_monitor_and_trade ::
  "string \<Rightarrow> nft cache \<Rightarrow> cycle_world list \<Rightarrow> (event list \<times> process) option" where
  "troubleshoot_monitor_and_trade wallet_address CACHE [] = Some ([], Running)"
| "troubleshoot_monitor_and_trade wallet_address CACHE (w # ws) =
     (case troubleshoot_cycle wallet_address CACHE w of
        None \<Rightarrow> None
      | Some (CACHE', (ev, Inl e)) \<Rightarrow>
          Some (ev @ [LogError (Unexpected_error e)], Exited 1)
      | Some (CACHE', (ev, Inr _)) \<Rightarrow>
          map_option (\<lambda>(ev', p). (ev @ ev', p))
            (troubleshoot_monitor_and_trade wallet_address CACHE' ws))"

section \<open>Notions used in the statements\<close>

text \<open>The calls to the outside among the events: everything but the log lines.\<close>

definition is_node_call :: "event \<Rightarrow> bool" where
  "is_node_call ev = (case ev of LogInfo _ \<Rightarrow> False | LogError _ \<Rightarrow> False | _ \<Rightarrow> True)"

definition node_calls :: "'a io \<Rightarrow> 'a io" where
  "node_calls m = (filter is_node_call (fst m), snd m)"

text \<open>The listing requests among the events, in order.\<close>

fun requests_of :: "event list \<Rightarrow> request list" where
  "requests_of [] = []"
| "requests_of (HttpGet r # ev) = r # requests_of ev"
| "requests_of (_ # ev) = requests_of ev"

text \<open>A computation that ends with a value, not with an exception.\<close>

definition returns :: "'a io \<Rightarrow> bool" where
  "returns m = (case snd m of Inl e \<Rightarrow> False | Inr x \<Rightarrow> True)"

text \<open>
  An answer after which the paging loop asks for one more page: status 200 and a page
  that is not empty, and in \<^verbatim>\<open>troubleshoot.py\<close> also a cursor to go on with.
\<close>

fun testnet_more :: "http_result \<Rightarrow> bool" where
  "testnet_more (Response status_code data) = (status_code = 200 \<and> assets data \<noteq> [])"
| "testnet_more (RequestFailed e) = False"

fun troubleshoot_more :: "http_result \<Rightarrow> bool" where
  "troubleshoot_more (Response status_code data) =
     (status_code = 200 \<and> assets data \<noteq> [] \<and>
      (case next_cursor data of None \<Rightarrow> False | Some c \<Rightarrow> c \<noteq> []))"
| "troubleshoot_more (RequestFailed e) = False"

fun page_assets :: "http_result \<Rightarrow> asset list" where
  "page_assets (Response status_code data) = assets data"
| "page_assets (RequestFailed e) = []"


text \<open>The frame built from the listings of the given pages.\<close>

definition testnet_frame :: "http_result list \<Rightarrow> nft_traits dataframe" where
  "testnet_frame pages = pd_DataFrame (map testnet_row (concat (map page_assets pages)))"

definition troubleshoot_frame :: "http_result list \<Rightarrow> nft dataframe" where
  "troubleshoot_frame pages = pd_DataFrame (map troubleshoot_row (concat (map page_assets pages)))"

section \<open>Example inputs\<close>

text \<open>
  A wallet of 10 ether; one listing at 1 ether with a gold background, one listing without
  a sell price.
\<close>

definition ex_asset :: asset where
  "ex_asset = \<lparr>asset_name = ''Ape 1'', asset_token = ''1'', asset_collection = ''Apes'',
     asset_contract = ''0xabc'', asset_trait_list = [(''Background'', ''Gold'')],
     current_price = Some (10 ^ 18)\<rparr>"

definition ex_unpriced_asset :: asset where
  "ex_unpriced_asset = \<lparr>asset_name = ''Ape 2'', asset_token = ''2'', asset_collection = ''Apes'',
     asset_contract = ''0xabc'', asset_trait_list = [(''Background'', ''Blue'')],
     current_price = None\<rparr>"

definition ex_row :: nft where
  "ex_row = \<lparr>name = ''Ape 1'', token_id = ''1'', collection = ''Apes'',
     contract_address = ''0xabc'', floor_price = Some 1\<rparr>"

definition ex_unpriced_row :: nft where
  "ex_unpriced_row = \<lparr>name = ''Ape 2'', token_id = ''2'', collection = ''Apes'',
     contract_address = ''0xabc'', floor_price = None\<rparr>"

definition ex_row_traits :: nft_traits where
  "ex_row_traits = \<lparr>name = ''Ape 1'', token_id = ''1'', collection = ''Apes'',
     contract_address = ''0xabc'', floor_price = Some 1,
     traits = map_of [(''Background'', ''Gold'')]\<rparr>"

definition ex_unpriced_row_traits :: nft_traits where
  "ex_unpriced_row_traits = \<lparr>name = ''Ape 2'', token_id = ''2'', collection = ''Apes'',
     contract_address = ''0xabc'', floor_price = None,
     traits = map_of [(''Background'', ''Blue'')]\<rparr>"

definition ex_last_page :: page where
  "ex_last_page = \<lparr>assets = [ex_asset], next_cursor = None\<rparr>"

definition ex_first_page :: page where
  "ex_first_page = \<lparr>assets = [ex_asset], next_cursor = Some ''a''\<rparr>"

definition ex_no_page :: page where
  "ex_no_page = \<lparr>assets = [], next_cursor = None\<rparr>"

definition ex_two_page :: page where
  "ex_two_page = \<lparr>assets = [ex_asset, ex_unpriced_asset], next_cursor = Some ''b''\<rparr>"

text \<open>One page of listings, then the end of the listing.\<close>

definition ex_fetch_ok :: fetch_world where
  "ex_fetch_ok = \<lparr>balance_answer = Inr (10 ^ 19),
     page_answers = [Response 200 ex_last_page, Response 200 ex_no_page]\<rparr>"

text \<open>One page of listings, then status 503.\<close>

definition ex_fetch_partial :: fetch_world where
  "ex_fetch_partial = \<lparr>balance_answer = Inr (10 ^ 19),
     page_answers = [Response 200 ex_first_page, Response 503 ex_no_page]\<rparr>"

text \<open>The same two marketplaces, for an empty wallet.\<close>

definition ex_fetch_ok_0 :: fetch_world where
  "ex_fetch_ok_0 = \<lparr>balance_answer = Inr 0,
     page_answers = [Response 200 ex_last_page, Response 200 ex_no_page]\<rparr>"

definition ex_fetch_partial_0 :: fetch_world where
  "ex_fetch_partial_0 = \<lparr>balance_answer = Inr 0,
     page_answers = [Response 200 ex_first_page, Response 503 ex_no_page]\<rparr>"

text \<open>A first page with two listings, then status 503.\<close>

definition ex_fetch_two :: fetch_world where
  "ex_fetch_two = \<lparr>balance_answer = Inr (10 ^ 19),
     page_answers = [Response 200 ex_two_page, Response 503 ex_no_page]\<rparr>"

definition ex_fetch_two_0 :: fetch_world where
  "ex_fetch_two_0 = \<lparr>balance_answer = Inr 0,
     page_answers = [Response 200 ex_two_page, Response 503 ex_no_page]\<rparr>"

text \<open>Status 500 on the first page, for an empty wallet.\<close>

definition ex_fetch_first_page_500 :: fetch_world where
  "ex_fetch_first_page_500 = \<lparr>balance_answer = Inr 0,
     page_answers = [Response 500 ex_no_page]\<rparr>"

text \<open>The listing request itself fails.\<close>

definition ex_fetch_refused :: fetch_world where
  "ex_fetch_refused = \<lparr>balance_answer = Inr (10 ^ 19),
     page_answers = [RequestFailed (Raised ''Connection refused'')]\<rparr>"

text \<open>A node that accepts the purchase, and a node that refuses the broadcast.\<close>

definition ex_buy_ok :: buy_world where
  "ex_buy_ok = \<lparr>buy_balance_answer = Inr (10 ^ 19), nonce_answer = Inr 7,
     estimate_gas_answer = (\<lambda>tx. Inr 21000), sign_answer = (\<lambda>tx. Inr ''0xf86c''),
     send_answer = (\<lambda>raw. Inr ''0x5e1d''), balance_after_answer = Inr (9 * 10 ^ 18)\<rparr>"

text \<open>A wallet one wei short of 4 ether.\<close>

definition ex_buy_rounding :: buy_world where
  "ex_buy_rounding = \<lparr>buy_balance_answer = Inr 3999999999999999999, nonce_answer = Inr 7,
     estimate_gas_answer = (\<lambda>tx. Inr 21000), sign_answer = (\<lambda>tx. Inr ''0xf86c''),
     send_answer = (\<lambda>raw. Inr ''0x5e1d''), balance_after_answer = Inr (3 * 10 ^ 18)\<rparr>"

definition ex_buy_send_fails :: buy_world where
  "ex_buy_send_fails = \<lparr>buy_balance_answer = Inr (10 ^ 19), nonce_answer = Inr 7,
     estimate_gas_answer = (\<lambda>tx. Inr 21000), sign_answer = (\<lambda>tx. Inr ''0xf86c''),
     send_answer = (\<lambda>raw. Inl (Raised ''insufficient funds for gas * price + value'')),
     balance_after_answer = Inr (10 ^ 19)\<rparr>"

definition ex_relist_ok :: relist_world where
  "ex_relist_ok = \<lparr>time_answer = 1700000000,
     post_answer = Inr \<lparr>post_status = 200, post_json = [(''order_hash'', ''0x01'')],
                        post_text = ''{}''\<rparr>\<rparr>"

definition ex_cycle_send_fails :: cycle_world where
  "ex_cycle_send_fails = \<lparr>now_answer = 0, fetch_answers = ex_fetch_ok,
     buy_answers = ex_buy_send_fails, relist_answers = ex_relist_ok\<rparr>"

definition ex_cycle_refused :: cycle_world where
  "ex_cycle_refused = \<lparr>now_answer = 0, fetch_answers = ex_fetch_refused,
     buy_answers = ex_buy_ok, relist_answers = ex_relist_ok\<rparr>"

definition ex_cycle_first_page_500 :: cycle_world where
  "ex_cycle_first_page_500 = \<lparr>now_answer = 0, fetch_answers = ex_fetch_first_page_500,
     buy_answers = ex_buy_ok, relist_answers = ex_relist_ok\<rparr>"

definition ex_cycle_ok :: cycle_world where
  "ex_cycle_ok = \<lparr>now_answer = 60, fetch_answers = ex_fetch_ok,
     buy_answers = ex_buy_ok, relist_answers = ex_relist_ok\<rparr>"

section \<open>Basic facts\<close>

lemma io_bind_Inl: "io_bind (ev, Inl e) f = (ev, Inl e)"
  by (simp add: io_bind_def)

lemma io_bind_Inr: "io_bind (ev, Inr x) f = (case f x of (ev', r) \<Rightarrow> (ev @ ev', r))"
  by (simp add: io_bind_def)

lemma io_try_Inl: "io_try (ev, Inl e) h = (case h e of (ev', r) \<Rightarrow> (ev @ ev', r))"
  by (simp add: io_try_def)

lemma io_try_Inr: "io_try (ev, Inr x) h = (ev, Inr x)"
  by (simp add: io_try_def)

lemma io_bind_pure_Inr: "io_bind (io_pure (Inr x)) f = f x"
  by (simp add: io_bind_def io_pure_def)

lemmas io_eval = io_bind_Inl io_bind_Inr io_try_Inl io_try_Inr

lemmas leaf_defs = io_return_def io_call_def io_emit_def io_pure_def

lemma testnet_get_wallet_balance_cases:
  "testnet_get_wallet_balance answer =
     (case answer of
        Inl e \<Rightarrow> ([GetBalance], Inl e)
      | Inr b \<Rightarrow> ([GetBalance], Web3_fromWei (of_int b)))"
  by (simp add: testnet_get_wallet_balance_def io_bind_def io_call_def io_pure_def
        split: sum.splits)

lemma troubleshoot_get_wallet_balance_cases:
  "troubleshoot_get_wallet_balance answer =
     (case answer of
        Inl e \<Rightarrow> ([GetBalance], Inl e)
      | Inr b \<Rightarrow> ([GetBalance], int_true_div b (10 ^ 18)))"
  by (simp add: troubleshoot_get_wallet_balance_def io_bind_def io_call_def io_pure_def
        split: sum.splits)

text \<open>Double precision: zero, and the values of the example inputs.\<close>

lemma round_double_zero: "round_double 0 = 0"
  by (simp add: round_double_def)

lemma int_times_float_zero: "int_times_float 0 y = Inr 0"
  by (simp add: int_times_float_def float_of_int_def float_times_def round_double_zero)

lemma float_times_zero: "float_times 0 y = 0"
  by (simp add: float_times_def round_double_zero)

lemma int_true_div_zero: "j \<noteq> 0 \<Longrightarrow> int_true_div 0 j = Inr 0"
  by (simp add: int_true_div_def round_double_zero)

lemma ex_balance_10: "int_true_div 10000000000000000000 1000000000000000000 = Inr 10"
  by code_simp

lemma ex_balance_9: "int_true_div 9000000000000000000 1000000000000000000 = Inr 9"
  by code_simp

lemma ex_balance_3: "int_true_div 3000000000000000000 1000000000000000000 = Inr 3"
  by code_simp

lemma ex_fetch_limit: "float_times 10 (1 / 4) = 5 / 2"
  by code_simp

lemma ex_buy_limit: "int_times_float 10000000000000000000 (1 / 4) = Inr 2500000000000000000"
  by code_simp

lemma ex_rounded_limit: "int_times_float 3999999999999999999 (1 / 4) = Inr 1000000000000000000"
  by code_simp

lemmas float_eval = round_double_zero int_times_float_zero float_times_zero int_true_div_zero
  ex_balance_10 ex_balance_9 ex_balance_3 ex_fetch_limit ex_buy_limit ex_rounded_limit

text \<open>Where an event of a sequence of two computations comes from.\<close>

lemma in_events_bind:
  "x \<in> set (fst (io_bind m f)) \<Longrightarrow>
     x \<in> set (fst m) \<or> (\<exists>v. snd m = Inr v \<and> x \<in> set (fst (f v)))"
  by (cases m) (auto simp: io_bind_def split: sum.splits prod.splits)

lemma in_events_try:
  "x \<in> set (fst (io_try m h)) \<Longrightarrow>
     x \<in> set (fst m) \<or> (\<exists>e. snd m = Inl e \<and> x \<in> set (fst (h e)))"
  by (cases m) (auto simp: io_try_def split: sum.splits prod.splits)

text \<open>Dropping the log lines commutes with sequencing and with exception handling.\<close>

lemma node_calls_bind:
  "node_calls (io_bind m f) = io_bind (node_calls m) (\<lambda>x. node_calls (f x))"
  by (cases m) (auto simp: node_calls_def io_bind_def split: sum.splits prod.splits)

lemma node_calls_try:
  "node_calls (io_try m h) = io_try (node_calls m) (\<lambda>x. node_calls (h x))"
  by (cases m) (auto simp: node_calls_def io_try_def split: sum.splits prod.splits)

lemma node_calls_if:
  "node_calls (if c then m else m') = (if c then node_calls m else node_calls m')"
  by simp

lemma node_calls_leaf:
  "node_calls (io_emit (LogInfo l)) = io_return ()"
  "node_calls (io_emit (LogError l)) = io_return ()"
  "node_calls (io_return x) = io_return x"
  by (simp_all add: node_calls_def leaf_defs is_node_call_def)

lemmas node_calls_simps = node_calls_bind node_calls_try node_calls_if node_calls_leaf

text \<open>Computations that cannot raise.\<close>

lemma returns_value: "returns m \<Longrightarrow> \<exists>ev x. m = (ev, Inr x)"
  by (cases m) (auto simp: returns_def split: sum.splits)

lemma returns_bind:
  assumes "returns m" and "\<And>x. returns (f x)"
  shows "returns (io_bind m f)"
proof -
  from assms(1) obtain ev x where "m = (ev, Inr x)"
    by (auto dest: returns_value)
  then show ?thesis
    using assms(2) [of x] by (simp add: returns_def io_bind_def case_prod_beta)
qed

lemma returns_try:
  assumes "\<And>e. returns (h e)"
  shows "returns (io_try m h)"
proof (cases m)
  case (Pair ev r)
  show ?thesis
  proof (cases r)
    case (Inl e)
    with Pair assms [of e] show ?thesis
      by (simp add: returns_def io_try_def case_prod_beta)
  next
    case (Inr x)
    with Pair show ?thesis by (simp add: returns_def io_try_def)
  qed
qed

lemma returns_if:
  "returns m \<Longrightarrow> returns m' \<Longrightarrow> returns (if c then m else m')"
  by simp

lemma returns_case_list:
  "returns m \<Longrightarrow> (\<And>x xs. returns (f x xs)) \<Longrightarrow>
   returns (case l of [] \<Rightarrow> m | x # xs \<Rightarrow> f x xs)"
  by (cases l) simp_all

lemma returns_leaf:
  "returns (io_emit ev)" "returns (io_return x)"
  by (simp_all add: returns_def leaf_defs)

lemmas returns_intros = returns_bind returns_try returns_if returns_case_list returns_leaf

lemma requests_of_append: "requests_of (ev @ ev') = requests_of ev @ requests_of ev'"
  by (induction ev rule: requests_of.induct) simp_all

text \<open>Unfolding sets for the evaluation of the example inputs.\<close>

lemmas ex_defs = ex_asset_def ex_unpriced_asset_def ex_row_def ex_unpriced_row_def
  ex_row_traits_def ex_unpriced_row_traits_def ex_last_page_def ex_first_page_def
  ex_no_page_def ex_two_page_def ex_fetch_two_def ex_fetch_two_0_def
  ex_fetch_ok_def ex_fetch_partial_def ex_fetch_ok_0_def
  ex_fetch_partial_0_def ex_fetch_first_page_500_def
  ex_fetch_refused_def ex_buy_ok_def ex_buy_rounding_def ex_buy_send_fails_def
  ex_relist_ok_def
  ex_cycle_send_fails_def ex_cycle_refused_def ex_cycle_first_page_500_def ex_cycle_ok_def

lemmas fetch_eval = troubleshoot_fetch_trending_nfts_def testnet_fetch_trending_nfts_def
  cache_check_def empty_cache_def testnet_get_wallet_balance_def
  troubleshoot_get_wallet_balance_def Web3_fromWei_def num_times_float_def float_eval
  leaf_defs io_eval io_prepend_def
  troubleshoot_row_def testnet_row_def wei_to_eth_def pd_DataFrame_def
  SPENDING_LIMIT_PERCENTAGE_def RATE_LIMIT_DELAY_def CACHE_EXPIRATION_def Let_def

lemmas cycle_eval = troubleshoot_cycle_def testnet_cycle_def df_empty_def df_len_def
  calculate_profitability_def profitable_nfts_def filter_by_traits_def float_mul_def
  float_sub_def float_gt_zero_def PROFIT_THRESHOLD_def troubleshoot_execute_buy_def
  testnet_execute_buy_def Web3_toWei_def troubleshoot_relist_nft_def testnet_relist_nft_def

section \<open>Scoring: the margin\<close>

text \<open>
  Claim C5. For every listing of the frame whose floor price is present, the scorer
  returns a frame of the same length whose row at the same place holds that listing,
  \<open>potential_profit = floor_price * (1 + PROFIT_THRESHOLD)\<close> and
  \<open>profit_margin = potential_profit - floor_price\<close>, which is
  \<open>floor_price * PROFIT_THRESHOLD\<close> (over exact arithmetic).
\<close>

theorem calculate_profitability_margin:
  assumes "i < length (rows df)" and "floor_price (rows df ! i) = Some p"
  shows "\<exists>out. calculate_profitability df = Inr (Frame out)
           \<and> length out = length (rows df)
           \<and> listing (out ! i) = rows df ! i
           \<and> potential_profit (out ! i) = Some (p * (1 + PROFIT_THRESHOLD))
           \<and> profit_margin (out ! i) = Some (p * (1 + PROFIT_THRESHOLD) - p)
           \<and> profit_margin (out ! i) = Some (p * PROFIT_THRESHOLD)"
proof (cases df)
  case EmptyFrame
  with assms show ?thesis by simp
next
  case (Frame ls)
  with assms show ?thesis
    by (simp add: calculate_profitability_def Let_def float_mul_def float_sub_def algebra_simps)
qed

theorem calculate_profitability_margin_witness:
  "0 < length (rows (Frame [ex_row, ex_unpriced_row]))
   \<and> floor_price (rows (Frame [ex_row, ex_unpriced_row]) ! 0) = Some 1
   \<and> (\<exists>out. calculate_profitability (Frame [ex_row, ex_unpriced_row]) = Inr (Frame out)
           \<and> length out = length [ex_row, ex_unpriced_row]
           \<and> listing (out ! 0) = ex_row
           \<and> potential_profit (out ! 0) = Some (6 / 5)
           \<and> profit_margin (out ! 0) = Some (1 / 5))"
proof -
  have h1: "0 < length (rows (Frame [ex_row, ex_unpriced_row]))" by simp
  have h2: "floor_price (rows (Frame [ex_row, ex_unpriced_row]) ! 0) = Some 1"
    by (simp add: ex_row_def)
  from calculate_profitability_margin [OF h1 h2] h1 h2 show ?thesis
    by (simp add: PROFIT_THRESHOLD_def)
qed

section \<open>Scoring: listings without a floor price\<close>

text \<open>
  Claim C4, as stated, fails: the scorer keeps a listing whose floor price is absent.
  For the frame of the two listings \<open>ex_row\<close> (1 ether) and \<open>ex_unpriced_row\<close> (no
  price), its output has two rows, and the second is the listing without a price, with
  absent \<open>potential_profit\<close> and \<open>profit_margin\<close>.
\<close>

theorem scorer_keeps_absent_floor_price:
  "calculate_profitability (Frame [ex_row, ex_unpriced_row]) =
     Inr (Frame
       [\<lparr>listing = ex_row, potential_profit = Some (6 / 5), profit_margin = Some (1 / 5)\<rparr>,
        \<lparr>listing = ex_unpriced_row, potential_profit = None, profit_margin = None\<rparr>])
   \<and> floor_price ex_unpriced_row = None"
  by (simp add: calculate_profitability_def float_mul_def float_sub_def PROFIT_THRESHOLD_def
        ex_row_def ex_unpriced_row_def)

text \<open>
  Claim C4, amended. The scorer drops no row: its output lists the rows of its input in
  order, and a row whose floor price is absent has absent \<open>potential_profit\<close> and
  \<open>profit_margin\<close>. It is the selection \<^verbatim>\<open>profit_margin > 0\<close> of \<^verbatim>\<open>monitor_and_trade\<close>,
  applied to the scorer's output, that drops such rows: every selected row has a floor
  price, a positive one.
\<close>

theorem absent_floor_price_dropped_by_selection:
  "\<exists>out sel. calculate_profitability (Frame ls) = Inr (Frame out)
      \<and> map listing out = ls
      \<and> (\<forall>s \<in> set out. floor_price (listing s) = None \<longrightarrow>
            potential_profit s = None \<and> profit_margin s = None)
      \<and> profitable_nfts (Frame out) = Inr (Frame sel)
      \<and> set sel \<subseteq> set out
      \<and> (\<forall>s \<in> set sel. \<exists>p. floor_price (listing s) = Some p \<and> 0 < p)"
  by (auto simp: calculate_profitability_def profitable_nfts_def Let_def comp_def
        float_mul_def float_sub_def float_gt_zero_def PROFIT_THRESHOLD_def
        split: option.splits)

theorem absent_floor_price_dropped_by_selection_witness:
  "\<exists>out sel. calculate_profitability (Frame [ex_row, ex_unpriced_row]) = Inr (Frame out)
      \<and> map listing out = [ex_row, ex_unpriced_row]
      \<and> potential_profit (out ! 1) = None \<and> profit_margin (out ! 1) = None
      \<and> profitable_nfts (Frame out) = Inr (Frame sel)
      \<and> map listing sel = [ex_row]"
proof -
  from absent_floor_price_dropped_by_selection [of "[ex_row, ex_unpriced_row]"]
  obtain out sel where
    out: "calculate_profitability (Frame [ex_row, ex_unpriced_row]) = Inr (Frame out)"
    and sel: "profitable_nfts (Frame out) = Inr (Frame sel)"
    by blast
  from out have out_eq: "out =
      [\<lparr>listing = ex_row, potential_profit = Some (6 / 5), profit_margin = Some (1 / 5)\<rparr>,
       \<lparr>listing = ex_unpriced_row, potential_profit = None, profit_margin = None\<rparr>]"
    by (simp add: calculate_profitability_def float_mul_def float_sub_def PROFIT_THRESHOLD_def
          ex_row_def ex_unpriced_row_def)
  from sel have "map listing sel = [ex_row]"
    by (auto simp: out_eq profitable_nfts_def float_gt_zero_def)
  with out sel out_eq show ?thesis by simp
qed


section \<open>Buying: the spend guard\<close>

text \<open>
  Claim C3, as stated, fails: the limit the code compares with is not the balance times
  0.25 but that product in double precision, where the balance is first rounded to a
  double. For a wallet of 3999999999999999999 wei and a price of 1 ether the price in wei,
  \<open>10^18\<close>, exceeds a quarter of the balance, but the computed limit is \<open>10^18\<close>, and
  \<^verbatim>\<open>execute_buy\<close> signs and broadcasts, in both files.
\<close>

theorem spend_guard_rounds_the_balance:
  "Web3_toWei (Some 1) = Inr (10 ^ 18)
   \<and> (of_int (10 ^ 18) :: rat) > of_int 3999999999999999999 * SPENDING_LIMIT_PERCENTAGE
   \<and> testnet_execute_buy ''0xme'' ex_buy_rounding ''1'' (Some 1) =
       ([GetBalance, GetTransactionCount,
         SignTransaction [(''from'', Address ''0xme''), (''value'', Quantity (10 ^ 18)),
           (''gas'', Quantity 200000), (''gasPrice'', Quantity (50 * 10 ^ 9)),
           (''nonce'', Quantity 7)],
         SendRawTransaction ''0xf86c'', LogInfo (Executed_buy ''1'' ''0x5e1d''),
         GetBalance, LogInfo (Updated_balance 3)], Inr ''0x5e1d'')
   \<and> troubleshoot_execute_buy ''0xme'' ex_buy_rounding ''1'' (Some 1) =
       ([GetBalance, GetTransactionCount,
         EstimateGas [(''from'', Address ''0xme''), (''value'', Quantity (10 ^ 18)),
           (''gas'', Quantity 200000), (''gasPrice'', Quantity (50 * 10 ^ 9)),
           (''nonce'', Quantity 7)],
         SignTransaction [(''from'', Address ''0xme''), (''value'', Quantity (10 ^ 18)),
           (''gas'', Quantity 21000), (''gasPrice'', Quantity (50 * 10 ^ 9)),
           (''nonce'', Quantity 7)],
         SendRawTransaction ''0xf86c'', LogInfo (Executed_buy ''1'' ''0x5e1d''),
         GetBalance, LogInfo (Updated_balance 3)], Inr ''0x5e1d'')"
  by (simp add: testnet_execute_buy_def troubleshoot_execute_buy_def Web3_toWei_def
        SPENDING_LIMIT_PERCENTAGE_def testnet_get_wallet_balance_def
        troubleshoot_get_wallet_balance_def Web3_fromWei_def float_eval leaf_defs io_eval
        ex_buy_rounding_def)

text \<open>
  Claim C3, amended. Let \<open>spending_limit\<close> be the limit as \<^verbatim>\<open>execute_buy\<close> computes it
  from the balance it reads itself: the balance converted to a double, times 0.25. When
  the price in wei exceeds \<open>spending_limit\<close>, the call returns
  \<^verbatim>\<open>"Exceeds spending limit"\<close>; its only events are that balance read and the error log
  line, so nothing is signed and nothing is broadcast. This holds in
  \<^verbatim>\<open>troubleshoot.py\<close>, and in \<^verbatim>\<open>testnet.py\<close> when the limit is in the range that
  \<^verbatim>\<open>Web3.fromWei\<close> accepts (it is, for the balance of an account), whatever the caller has
  checked before.
\<close>

theorem execute_buy_spend_guard:
  assumes "buy_balance_answer w = Inr wallet_balance"
      and "Web3_toWei price = Inr price_in_wei"
      and "int_times_float wallet_balance SPENDING_LIMIT_PERCENTAGE = Inr spending_limit"
      and "of_int price_in_wei > spending_limit"
  shows "troubleshoot_execute_buy a w tok price =
           ([GetBalance, LogError (Price_exceeds_limit price)], Inr ''Exceeds spending limit'')
       \<and> (0 \<le> spending_limit \<and> spending_limit \<le> 2 ^ 256 - 1 \<longrightarrow>
           testnet_execute_buy a w tok price =
             ([GetBalance, LogError (Price_exceeds_limit price)],
              Inr ''Exceeds spending limit''))"
  using assms
  by (simp add: testnet_execute_buy_def troubleshoot_execute_buy_def Web3_fromWei_def
        leaf_defs io_eval)

theorem execute_buy_spend_guard_witness:
  "buy_balance_answer ex_buy_ok = Inr (10 ^ 19)
   \<and> Web3_toWei (Some 3) = Inr (3 * 10 ^ 18)
   \<and> int_times_float (10 ^ 19) SPENDING_LIMIT_PERCENTAGE = Inr (25 * 10 ^ 17)
   \<and> (of_int (3 * 10 ^ 18) :: rat) > 25 * 10 ^ 17
   \<and> (0 :: rat) \<le> 25 * 10 ^ 17 \<and> (25 * 10 ^ 17 :: rat) \<le> 2 ^ 256 - 1
   \<and> testnet_execute_buy ''0xme'' ex_buy_ok ''1'' (Some 3) =
        ([GetBalance, LogError (Price_exceeds_limit (Some 3))], Inr ''Exceeds spending limit'')
   \<and> troubleshoot_execute_buy ''0xme'' ex_buy_ok ''1'' (Some 3) =
        ([GetBalance, LogError (Price_exceeds_limit (Some 3))], Inr ''Exceeds spending limit'')"
proof -
  have h1: "buy_balance_answer ex_buy_ok = Inr (10 ^ 19)"
    by (simp add: ex_buy_ok_def)
  have h2: "Web3_toWei (Some 3) = Inr (3 * 10 ^ 18)"
    by (simp add: Web3_toWei_def)
  have h3: "int_times_float (10 ^ 19) SPENDING_LIMIT_PERCENTAGE = Inr (25 * 10 ^ 17)"
    by (simp add: SPENDING_LIMIT_PERCENTAGE_def float_eval)
  have h4: "(of_int (3 * 10 ^ 18) :: rat) > 25 * 10 ^ 17"
    by simp
  have h5: "(0 :: rat) \<le> 25 * 10 ^ 17 \<and> (25 * 10 ^ 17 :: rat) \<le> 2 ^ 256 - 1"
    by simp
  from execute_buy_spend_guard [OF h1 h2 h3 h4, of "''0xme''" "''1''"] h1 h2 h3 h4 h5
  show ?thesis
    by blast
qed

section \<open>Buying: the transaction\<close>

lemma testnet_signed_transaction:
  "SignTransaction tx \<in> set (fst (testnet_execute_buy a w tok price)) \<Longrightarrow>
    \<exists>v n. tx = [(''from'', Address a), (''value'', Quantity v), (''gas'', Quantity 200000),
              (''gasPrice'', Quantity (50 * 10 ^ 9)), (''nonce'', Quantity n)]"
  unfolding testnet_execute_buy_def testnet_get_wallet_balance_def Let_def
  by (auto dest!: in_events_bind simp: leaf_defs split: if_splits)

lemma troubleshoot_signed_transaction:
  "SignTransaction tx \<in> set (fst (troubleshoot_execute_buy a w tok price)) \<Longrightarrow>
    \<exists>v g n. tx = [(''from'', Address a), (''value'', Quantity v), (''gas'', Quantity g),
                (''gasPrice'', Quantity (50 * 10 ^ 9)), (''nonce'', Quantity n)]"
  unfolding troubleshoot_execute_buy_def troubleshoot_get_wallet_balance_def Let_def
  by (auto dest!: in_events_try in_events_bind simp: leaf_defs split: if_splits)

lemma testnet_sent_transaction:
  "SendRawTransaction raw \<in> set (fst (testnet_execute_buy a w tok price)) \<Longrightarrow>
    \<exists>v n. sign_answer w [(''from'', Address a), (''value'', Quantity v),
              (''gas'', Quantity 200000), (''gasPrice'', Quantity (50 * 10 ^ 9)),
              (''nonce'', Quantity n)] = Inr raw"
  unfolding testnet_execute_buy_def testnet_get_wallet_balance_def Let_def
  apply (auto dest!: in_events_bind simp: leaf_defs split: if_splits)
  apply blast
  done

lemma troubleshoot_sent_transaction:
  "SendRawTransaction raw \<in> set (fst (troubleshoot_execute_buy a w tok price)) \<Longrightarrow>
    \<exists>v g n. sign_answer w [(''from'', Address a), (''value'', Quantity v),
              (''gas'', Quantity g), (''gasPrice'', Quantity (50 * 10 ^ 9)),
              (''nonce'', Quantity n)] = Inr raw"
  unfolding troubleshoot_execute_buy_def troubleshoot_get_wallet_balance_def Let_def
  apply (auto dest!: in_events_try in_events_bind simp: leaf_defs split: if_splits)
  apply blast
  done

lemma testnet_buy_token_independent:
  "node_calls (testnet_execute_buy a w tok price) =
   node_calls (testnet_execute_buy a w tok' price)"
  unfolding testnet_execute_buy_def testnet_get_wallet_balance_def Let_def
  by (simp only: node_calls_simps)

lemma troubleshoot_buy_token_independent:
  "node_calls (troubleshoot_execute_buy a w tok price) =
   node_calls (troubleshoot_execute_buy a w tok' price)"
  unfolding troubleshoot_execute_buy_def troubleshoot_get_wallet_balance_def Let_def
  by (simp only: node_calls_simps)

text \<open>
  Claim C9. In both files, every transaction that \<^verbatim>\<open>execute_buy\<close> signs is a dictionary
  with exactly the keys \<^verbatim>\<open>from\<close>, \<^verbatim>\<open>value\<close>, \<^verbatim>\<open>gas\<close>, \<^verbatim>\<open>gasPrice\<close>, \<^verbatim>\<open>nonce\<close>, in
  which \<^verbatim>\<open>from\<close> is the wallet's own address and the other values are numbers: there is
  no recipient, no token id and no contract address. What is broadcast is the signature of
  such a transaction. The token id influences the log lines only: two calls that differ
  only in it make the same calls to the node, with the same arguments, and end alike.
\<close>

theorem execute_buy_transaction_fields:
  "(\<forall>tx. SignTransaction tx \<in> set (fst (testnet_execute_buy a w tok price)) \<longrightarrow>
      map fst tx = [''from'', ''value'', ''gas'', ''gasPrice'', ''nonce''] \<and>
      (\<exists>v n. tx = [(''from'', Address a), (''value'', Quantity v), (''gas'', Quantity 200000),
                (''gasPrice'', Quantity (50 * 10 ^ 9)), (''nonce'', Quantity n)]))
   \<and> (\<forall>tx. SignTransaction tx \<in> set (fst (troubleshoot_execute_buy a w tok price)) \<longrightarrow>
      map fst tx = [''from'', ''value'', ''gas'', ''gasPrice'', ''nonce''] \<and>
      (\<exists>v g n. tx = [(''from'', Address a), (''value'', Quantity v), (''gas'', Quantity g),
                  (''gasPrice'', Quantity (50 * 10 ^ 9)), (''nonce'', Quantity n)]))
   \<and> (\<forall>raw. SendRawTransaction raw \<in> set (fst (testnet_execute_buy a w tok price)) \<longrightarrow>
      (\<exists>v n. sign_answer w [(''from'', Address a), (''value'', Quantity v),
                (''gas'', Quantity 200000), (''gasPrice'', Quantity (50 * 10 ^ 9)),
                (''nonce'', Quantity n)] = Inr raw))
   \<and> (\<forall>raw. SendRawTransaction raw \<in> set (fst (troubleshoot_execute_buy a w tok price)) \<longrightarrow>
      (\<exists>v g n. sign_answer w [(''from'', Address a), (''value'', Quantity v),
                (''gas'', Quantity g), (''gasPrice'', Quantity (50 * 10 ^ 9)),
                (''nonce'', Quantity n)] = Inr raw))
   \<and> node_calls (testnet_execute_buy a w tok price) =
      node_calls (testnet_execute_buy a w tok' price)
   \<and> node_calls (troubleshoot_execute_buy a w tok price) =
      node_calls (troubleshoot_execute_buy a w tok' price)"
proof (intro conjI allI impI)
  fix tx
  assume "SignTransaction tx \<in> set (fst (testnet_execute_buy a w tok price))"
  from testnet_signed_transaction [OF this]
  show "\<exists>v n. tx = [(''from'', Address a), (''value'', Quantity v), (''gas'', Quantity 200000),
                (''gasPrice'', Quantity (50 * 10 ^ 9)), (''nonce'', Quantity n)]" .
  then show "map fst tx = [''from'', ''value'', ''gas'', ''gasPrice'', ''nonce'']" by auto
next
  fix tx
  assume "SignTransaction tx \<in> set (fst (troubleshoot_execute_buy a w tok price))"
  from troubleshoot_signed_transaction [OF this]
  show "\<exists>v g n. tx = [(''from'', Address a), (''value'', Quantity v), (''gas'', Quantity g),
                  (''gasPrice'', Quantity (50 * 10 ^ 9)), (''nonce'', Quantity n)]" .
  then show "map fst tx = [''from'', ''value'', ''gas'', ''gasPrice'', ''nonce'']" by auto
next
  fix raw
  assume "SendRawTransaction raw \<in> set (fst (testnet_execute_buy a w tok price))"
  from testnet_sent_transaction [OF this]
  show "\<exists>v n. sign_answer w [(''from'', Address a), (''value'', Quantity v),
                (''gas'', Quantity 200000), (''gasPrice'', Quantity (50 * 10 ^ 9)),
                (''nonce'', Quantity n)] = Inr raw" .
next
  fix raw
  assume "SendRawTransaction raw \<in> set (fst (troubleshoot_execute_buy a w tok price))"
  from troubleshoot_sent_transaction [OF this]
  show "\<exists>v g n. sign_answer w [(''from'', Address a), (''value'', Quantity v),
                (''gas'', Quantity g), (''gasPrice'', Quantity (50 * 10 ^ 9)),
                (''nonce'', Quantity n)] = Inr raw" .
next
  show "node_calls (testnet_execute_buy a w tok price) =
        node_calls (testnet_execute_buy a w tok' price)"
    by (rule testnet_buy_token_independent)
next
  show "node_calls (troubleshoot_execute_buy a w tok price) =
        node_calls (troubleshoot_execute_buy a w tok' price)"
    by (rule troubleshoot_buy_token_independent)
qed

text \<open>
  The buy of the listing at 1 ether from the wallet of 10 ether, in both files: what is
  signed, what is broadcast, and the same calls for token \<open>1\<close> and token \<open>2\<close>.
\<close>

lemma ex_testnet_buy:
  "testnet_execute_buy ''0xme'' ex_buy_ok tok (Some 1) =
     ([GetBalance, GetTransactionCount,
       SignTransaction [(''from'', Address ''0xme''), (''value'', Quantity (10 ^ 18)),
         (''gas'', Quantity 200000), (''gasPrice'', Quantity (50 * 10 ^ 9)),
         (''nonce'', Quantity 7)],
       SendRawTransaction ''0xf86c'', LogInfo (Executed_buy tok ''0x5e1d''),
       GetBalance, LogInfo (Updated_balance 9)], Inr ''0x5e1d'')"
  by (simp add: testnet_execute_buy_def Web3_toWei_def SPENDING_LIMIT_PERCENTAGE_def
        testnet_get_wallet_balance_def Web3_fromWei_def float_eval leaf_defs io_eval
        ex_buy_ok_def)

lemma ex_troubleshoot_buy:
  "troubleshoot_execute_buy ''0xme'' ex_buy_ok tok (Some 1) =
     ([GetBalance, GetTransactionCount,
       EstimateGas [(''from'', Address ''0xme''), (''value'', Quantity (10 ^ 18)),
         (''gas'', Quantity 200000), (''gasPrice'', Quantity (50 * 10 ^ 9)),
         (''nonce'', Quantity 7)],
       SignTransaction [(''from'', Address ''0xme''), (''value'', Quantity (10 ^ 18)),
         (''gas'', Quantity 21000), (''gasPrice'', Quantity (50 * 10 ^ 9)),
         (''nonce'', Quantity 7)],
       SendRawTransaction ''0xf86c'', LogInfo (Executed_buy tok ''0x5e1d''),
       GetBalance, LogInfo (Updated_balance 9)], Inr ''0x5e1d'')"
  by (simp add: troubleshoot_execute_buy_def Web3_toWei_def SPENDING_LIMIT_PERCENTAGE_def
        troubleshoot_get_wallet_balance_def float_eval leaf_defs io_eval ex_buy_ok_def)

theorem execute_buy_transaction_fields_witness:
  "SignTransaction [(''from'', Address ''0xme''), (''value'', Quantity (10 ^ 18)),
       (''gas'', Quantity 200000), (''gasPrice'', Quantity (50 * 10 ^ 9)),
       (''nonce'', Quantity 7)]
     \<in> set (fst (testnet_execute_buy ''0xme'' ex_buy_ok ''1'' (Some 1)))
   \<and> SignTransaction [(''from'', Address ''0xme''), (''value'', Quantity (10 ^ 18)),
       (''gas'', Quantity 21000), (''gasPrice'', Quantity (50 * 10 ^ 9)),
       (''nonce'', Quantity 7)]
     \<in> set (fst (troubleshoot_execute_buy ''0xme'' ex_buy_ok ''1'' (Some 1)))
   \<and> SendRawTransaction ''0xf86c''
     \<in> set (fst (testnet_execute_buy ''0xme'' ex_buy_ok ''1'' (Some 1)))
   \<and> SendRawTransaction ''0xf86c''
     \<in> set (fst (troubleshoot_execute_buy ''0xme'' ex_buy_ok ''1'' (Some 1)))
   \<and> sign_answer ex_buy_ok [(''from'', Address ''0xme''), (''value'', Quantity (10 ^ 18)),
       (''gas'', Quantity 21000), (''gasPrice'', Quantity (50 * 10 ^ 9)),
       (''nonce'', Quantity 7)] = Inr ''0xf86c''
   \<and> node_calls (testnet_execute_buy ''0xme'' ex_buy_ok ''1'' (Some 1)) =
      node_calls (testnet_execute_buy ''0xme'' ex_buy_ok ''2'' (Some 1))
   \<and> node_calls (troubleshoot_execute_buy ''0xme'' ex_buy_ok ''1'' (Some 1)) =
      node_calls (troubleshoot_execute_buy ''0xme'' ex_buy_ok ''2'' (Some 1))"
  using execute_buy_transaction_fields [of "''0xme''" ex_buy_ok "''1''" "Some 1" "''2''"]
  by (simp add: ex_testnet_buy ex_troubleshoot_buy) (simp add: ex_buy_ok_def)

section \<open>The trait filter\<close>

text \<open>
  On a frame with at least one row, \<^verbatim>\<open>filter_by_traits\<close> keeps, in order, exactly the
  listings in whose traits every desired key has the desired value, and with no desired
  trait it returns the frame as it is.
\<close>

lemma filter_by_traits_Frame:
  "ls \<noteq> [] \<Longrightarrow> filter_by_traits (Frame ls) desired =
     Inr (Frame (filter (\<lambda>l. \<forall>(k, v) \<in> set desired. traits l k = Some v) ls))"
  by (simp add: filter_by_traits_def list_all_iff case_prod_beta)

lemma filter_by_traits_no_desired:
  "ls \<noteq> [] \<Longrightarrow> filter_by_traits (Frame ls) [] = Inr (Frame ls)"
  by (simp add: filter_by_traits_def)

text \<open>
  Claim C8 at the frame that \<^verbatim>\<open>fetch_trending_nfts\<close> builds from an empty list of
  listings: that frame has no \<^verbatim>\<open>traits\<close> column, and the filter raises \<^verbatim>\<open>KeyError\<close>
  instead of returning its input, also with no desired trait.
\<close>

theorem filter_by_traits_empty_fetch_raises:
  "filter_by_traits (pd_DataFrame []) [] = Inl (KeyError ''traits'')"
  by (simp add: filter_by_traits_def pd_DataFrame_def)

section \<open>The trade loop: relisting after a failed purchase\<close>

text \<open>
  Claim C1 at a pass of the loop of \<^verbatim>\<open>troubleshoot.py\<close> in which the broadcast of the
  purchase raises: \<^verbatim>\<open>execute_buy\<close> logs the exception and returns its text, which is not
  \<^verbatim>\<open>"Exceeds spending limit"\<close>, so the loop logs a purchase and posts the sell order.
\<close>

theorem relist_after_failed_purchase:
  "troubleshoot_cycle ''0xme'' empty_cache ex_cycle_send_fails =
   Some (\<lparr>trending_nfts = Some (Frame [ex_row]), last_fetched = Some 0\<rparr>,
     ([LogInfo Starting_monitoring, GetBalance, LogInfo (Wallet_balance 10 (5 / 2)),
       HttpGet (CursorRequest None), LogInfo Fetched_new, LogInfo (Retrieved 1),
       LogInfo (Identified 1), GetBalance, GetTransactionCount,
       EstimateGas [(''from'', Address ''0xme''), (''value'', Quantity (10 ^ 18)),
          (''gas'', Quantity 200000), (''gasPrice'', Quantity (50 * 10 ^ 9)),
          (''nonce'', Quantity 7)],
       SignTransaction [(''from'', Address ''0xme''), (''value'', Quantity (10 ^ 18)),
          (''gas'', Quantity 21000), (''gasPrice'', Quantity (50 * 10 ^ 9)),
          (''nonce'', Quantity 7)],
       SendRawTransaction ''0xf86c'',
       LogError (Failed_to_execute (Raised ''insufficient funds for gas * price + value'')),
       LogInfo (Purchased ''1'' (Some 1)),
       HttpPost \<lparr>asset_token_id = ''1'', asset_token_address = ''0xabc'',
                 start_amount = Some (6 / 5), expiration_time = 1700086400\<rparr>,
       LogInfo (Relisted ''1'' (Some (6 / 5)) ''0xabc''),
       LogInfo Successfully_relisted, LogInfo Cycle_complete, Sleep 60], Inr ()))"
  by (simp add: fetch_eval cycle_eval ex_defs)


section \<open>Listing retrieval: paging\<close>

text \<open>
  After any number of pages that keep the loop going, a status other than 200 (so every
  status outside 200..299) ends the loop: the loop makes no further request, logs the
  failure and returns the rows of the pages before, whatever answers would have followed.
\<close>

lemma testnet_pages_stop:
  "list_all testnet_more pre \<Longrightarrow> status \<noteq> 200 \<Longrightarrow>
   \<exists>ev. testnet_pages (pre @ Response status data # rest) pm off acc =
          Some (ev, Inr (acc @ map testnet_row (concat (map page_assets pre))))
      \<and> length (requests_of ev) = Suc (length pre)
      \<and> LogError (Api_call_failed status) \<in> set ev"
proof (induction pre arbitrary: off acc)
  case Nil
  then show ?case by simp
next
  case (Cons p pre)
  from Cons.prems obtain d where p: "p = Response 200 d" and d: "assets d \<noteq> []"
    by (cases p) auto
  from Cons.prems have "list_all testnet_more pre" by simp
  from Cons.IH [OF this Cons.prems(2), of "off + 50" "acc @ map testnet_row (assets d)"]
  obtain ev where
    ev: "testnet_pages (pre @ Response status data # rest) pm (off + 50)
           (acc @ map testnet_row (assets d)) =
         Some (ev, Inr ((acc @ map testnet_row (assets d)) @
                        map testnet_row (concat (map page_assets pre))))"
    and n: "length (requests_of ev) = Suc (length pre)"
    and l: "LogError (Api_call_failed status) \<in> set ev"
    by blast
  show ?case
    using ev n l by (simp add: p d io_prepend_def)
qed

lemma troubleshoot_pages_stop:
  "list_all troubleshoot_more pre \<Longrightarrow> status \<noteq> 200 \<Longrightarrow>
   \<exists>ev. troubleshoot_pages (pre @ Response status data # rest) cur acc =
          Some (ev, Inr (acc @ map troubleshoot_row (concat (map page_assets pre))))
      \<and> length (requests_of ev) = Suc (length pre)
      \<and> LogError (Api_call_failed status) \<in> set ev"
proof (induction pre arbitrary: cur acc)
  case Nil
  then show ?case by simp
next
  case (Cons p pre)
  from Cons.prems obtain d c where p: "p = Response 200 d" and d: "assets d \<noteq> []"
    and c: "next_cursor d = Some c" "c \<noteq> []"
    by (cases p) (auto split: option.splits)
  from Cons.prems have "list_all troubleshoot_more pre" by simp
  from Cons.IH [OF this Cons.prems(2), of "Some c" "acc @ map troubleshoot_row (assets d)"]
  obtain ev where
    ev: "troubleshoot_pages (pre @ Response status data # rest) (Some c)
           (acc @ map troubleshoot_row (assets d)) =
         Some (ev, Inr ((acc @ map troubleshoot_row (assets d)) @
                        map troubleshoot_row (concat (map page_assets pre))))"
    and n: "length (requests_of ev) = Suc (length pre)"
    and l: "LogError (Api_call_failed status) \<in> set ev"
    by blast
  show ?case
    using ev n l by (simp add: p d c io_prepend_def)
qed





section \<open>Listing retrieval: the cache\<close>

lemma cache_check_hit:
  "trending_nfts C = Some df \<Longrightarrow> last_fetched C = Some t0 \<Longrightarrow>
   t - t0 < CACHE_EXPIRATION \<Longrightarrow> cache_check C t = Inr (Some df)"
  by (simp add: cache_check_def)



lemma testnet_fetch_hit:
  "cache_check C t = Inr (Some df) \<Longrightarrow>
   testnet_fetch_trending_nfts C t w = Some (C, ([LogInfo Using_cached], Inr df))"
  by (simp add: testnet_fetch_trending_nfts_def)

lemma troubleshoot_fetch_hit:
  "cache_check C t = Inr (Some df) \<Longrightarrow>
   troubleshoot_fetch_trending_nfts C t w = Some (C, ([LogInfo Using_cached], Inr df))"
  by (simp add: troubleshoot_fetch_trending_nfts_def)






text \<open>
  In \<^verbatim>\<open>testnet.py\<close>, \<^verbatim>\<open>get_wallet_balance\<close> returns a \<^verbatim>\<open>Decimal\<close> for every balance other
  than 0, and the product with the float 0.25 raises \<^verbatim>\<open>TypeError\<close>: with a funded wallet
  a call that finds no valid entry makes no listing request and leaves the cache as it
  was.
\<close>

lemma testnet_fetch_funded_wallet_raises:
  assumes "cache_check C t = Inr None" and "balance_answer w = Inr b"
      and "0 < b" and "b \<le> 2 ^ 256 - 1"
  shows "testnet_fetch_trending_nfts C t w =
           Some (C, ([GetBalance], Inl Decimal_times_float_error))"
proof -
  from assms(3,4) have "Web3_fromWei (of_int b) = Inr (PyDecimal (of_int b / 10 ^ 18))"
  proof -
    from assms(4) have "(of_int b :: rat) \<le> of_int (2 ^ 256 - 1)"
      by (simp only: of_int_le_iff)
    with assms(3) show ?thesis
      by (simp add: Web3_fromWei_def)
  qed
  with assms(1,2) show ?thesis
    by (simp add: testnet_fetch_trending_nfts_def testnet_get_wallet_balance_cases
          num_times_float_def)
qed









section \<open>Listing retrieval: a failing page\<close>

text \<open>
  A fetch that finds no valid cache entry and meets a status other than 200 after the
  pages \<open>pre\<close> makes no further request, logs the failure and returns the frame of the
  listings of \<open>pre\<close> (the frame without columns when \<open>pre\<close> is empty), which it also
  stores in the cache with the time of the call.
\<close>

lemma testnet_fetch_stop:
  assumes "cache_check C t = Inr None" and "balance_answer w = Inr 0"
      and "page_answers w = pre @ Response status data # rest"
      and "list_all testnet_more pre" and "status \<noteq> 200"
  shows "\<exists>ev. testnet_fetch_trending_nfts C t w =
           Some (\<lparr>trending_nfts = Some (testnet_frame pre), last_fetched = Some t\<rparr>,
                 (ev, Inr (testnet_frame pre)))
         \<and> length (requests_of ev) = Suc (length pre)
         \<and> LogError (Api_call_failed status) \<in> set ev"
proof -
  from testnet_pages_stop [OF assms(4,5), of data rest 0 0 "[]"]
  obtain ev where
    "testnet_pages (page_answers w) 0 0 [] =
       Some (ev, Inr (map testnet_row (concat (map page_assets pre))))"
    and "length (requests_of ev) = Suc (length pre)"
    and "LogError (Api_call_failed status) \<in> set ev"
    using assms(3) by auto
  then show ?thesis
    using assms(1,2)
    by (simp add: testnet_fetch_trending_nfts_def testnet_get_wallet_balance_cases
          Web3_fromWei_def num_times_float_def int_times_float_zero Let_def
          requests_of_append testnet_frame_def)
qed

lemma troubleshoot_fetch_stop:
  assumes "cache_check C t = Inr None" and "balance_answer w = Inr b"
      and "int_true_div b (10 ^ 18) = Inr wallet_balance"
      and "page_answers w = pre @ Response status data # rest"
      and "list_all troubleshoot_more pre" and "status \<noteq> 200"
  shows "\<exists>ev. troubleshoot_fetch_trending_nfts C t w =
           Some (\<lparr>trending_nfts = Some (troubleshoot_frame pre), last_fetched = Some t\<rparr>,
                 (ev, Inr (troubleshoot_frame pre)))
         \<and> length (requests_of ev) = Suc (length pre)
         \<and> LogError (Api_call_failed status) \<in> set ev"
proof -
  from troubleshoot_pages_stop [OF assms(5,6), of data rest None "[]"]
  obtain ev where
    "troubleshoot_pages (page_answers w) None [] =
       Some (ev, Inr (map troubleshoot_row (concat (map page_assets pre))))"
    and "length (requests_of ev) = Suc (length pre)"
    and "LogError (Api_call_failed status) \<in> set ev"
    using assms(4) by auto
  then show ?thesis
    using assms(1,2,3)
    by (simp add: troubleshoot_fetch_trending_nfts_def troubleshoot_get_wallet_balance_cases
          Let_def requests_of_append troubleshoot_frame_def)
qed

text \<open>
  Claim C10, for both files. After a fetch that a status other than 200 ended early, the
  frame of the listings collected before (possibly none) is in the cache with the time of
  that call, and every call within the TTL after it returns that frame with the log line
  as its only event: the marketplace is not asked again. (In \<^verbatim>\<open>testnet.py\<close> a fetch gets
  as far as the requests only for an empty wallet; in \<^verbatim>\<open>troubleshoot.py\<close> the balance has
  to convert to a float.)
\<close>

theorem failed_fetch_is_cached:
  "(cache_check C t = Inr None \<and> balance_answer w = Inr 0 \<and>
    page_answers w = pre @ Response status data # rest \<and>
    list_all testnet_more pre \<and> status \<noteq> 200 \<longrightarrow>
      (\<exists>ev. testnet_fetch_trending_nfts C t w =
          Some (\<lparr>trending_nfts = Some (testnet_frame pre), last_fetched = Some t\<rparr>,
                (ev, Inr (testnet_frame pre)))
        \<and> length (requests_of ev) = Suc (length pre))
      \<and> (t' - t < CACHE_EXPIRATION \<longrightarrow>
          testnet_fetch_trending_nfts
            \<lparr>trending_nfts = Some (testnet_frame pre), last_fetched = Some t\<rparr> t' w' =
          Some (\<lparr>trending_nfts = Some (testnet_frame pre), last_fetched = Some t\<rparr>,
                ([LogInfo Using_cached], Inr (testnet_frame pre)))))
   \<and> (cache_check D t = Inr None \<and> balance_answer v = Inr b \<and>
      int_true_div b (10 ^ 18) = Inr wallet_balance \<and>
      page_answers v = pre' @ Response status' data' # rest' \<and>
      list_all troubleshoot_more pre' \<and> status' \<noteq> 200 \<longrightarrow>
      (\<exists>ev. troubleshoot_fetch_trending_nfts D t v =
          Some (\<lparr>trending_nfts = Some (troubleshoot_frame pre'), last_fetched = Some t\<rparr>,
                (ev, Inr (troubleshoot_frame pre')))
        \<and> length (requests_of ev) = Suc (length pre'))
      \<and> (t' - t < CACHE_EXPIRATION \<longrightarrow>
          troubleshoot_fetch_trending_nfts
            \<lparr>trending_nfts = Some (troubleshoot_frame pre'), last_fetched = Some t\<rparr> t' v' =
          Some (\<lparr>trending_nfts = Some (troubleshoot_frame pre'), last_fetched = Some t\<rparr>,
                ([LogInfo Using_cached], Inr (troubleshoot_frame pre')))))"
proof (intro conjI impI)
  assume a: "cache_check C t = Inr None \<and> balance_answer w = Inr 0 \<and>
    page_answers w = pre @ Response status data # rest \<and>
    list_all testnet_more pre \<and> status \<noteq> 200"
  then show "\<exists>ev. testnet_fetch_trending_nfts C t w =
          Some (\<lparr>trending_nfts = Some (testnet_frame pre), last_fetched = Some t\<rparr>,
                (ev, Inr (testnet_frame pre)))
        \<and> length (requests_of ev) = Suc (length pre)"
    using testnet_fetch_stop [of C t w pre status data rest] by blast
  assume "t' - t < CACHE_EXPIRATION"
  then show "testnet_fetch_trending_nfts
            \<lparr>trending_nfts = Some (testnet_frame pre), last_fetched = Some t\<rparr> t' w' =
          Some (\<lparr>trending_nfts = Some (testnet_frame pre), last_fetched = Some t\<rparr>,
                ([LogInfo Using_cached], Inr (testnet_frame pre)))"
    by (intro testnet_fetch_hit cache_check_hit) simp_all
next
  assume a: "cache_check D t = Inr None \<and> balance_answer v = Inr b \<and>
      int_true_div b (10 ^ 18) = Inr wallet_balance \<and>
      page_answers v = pre' @ Response status' data' # rest' \<and>
      list_all troubleshoot_more pre' \<and> status' \<noteq> 200"
  then show "\<exists>ev. troubleshoot_fetch_trending_nfts D t v =
          Some (\<lparr>trending_nfts = Some (troubleshoot_frame pre'), last_fetched = Some t\<rparr>,
                (ev, Inr (troubleshoot_frame pre')))
        \<and> length (requests_of ev) = Suc (length pre')"
    using troubleshoot_fetch_stop [of D t v b wallet_balance pre' status' data' rest']
    by blast
  assume "t' - t < CACHE_EXPIRATION"
  then show "troubleshoot_fetch_trending_nfts
            \<lparr>trending_nfts = Some (troubleshoot_frame pre'), last_fetched = Some t\<rparr> t' v' =
          Some (\<lparr>trending_nfts = Some (troubleshoot_frame pre'), last_fetched = Some t\<rparr>,
                ([LogInfo Using_cached], Inr (troubleshoot_frame pre')))"
    by (intro troubleshoot_fetch_hit cache_check_hit) simp_all
qed

text \<open>
  Two instances: a failure on the second page, after one listing (for an empty wallet in
  \<^verbatim>\<open>testnet.py\<close>, for a wallet of 10 ether in \<^verbatim>\<open>troubleshoot.py\<close>), and a failure on the
  first page, which leaves the frame without columns in the cache.
\<close>

theorem failed_fetch_is_cached_witness:
  "cache_check (empty_cache :: nft_traits cache) 0 = Inr None
   \<and> cache_check (empty_cache :: nft cache) 0 = Inr None
   \<and> balance_answer ex_fetch_partial_0 = Inr 0
   \<and> page_answers ex_fetch_partial_0 =
        [Response 200 ex_first_page] @ Response 503 ex_no_page # []
   \<and> balance_answer ex_fetch_partial = Inr (10 ^ 19)
   \<and> int_true_div (10 ^ 19) (10 ^ 18) = Inr 10
   \<and> page_answers ex_fetch_partial =
        [Response 200 ex_first_page] @ Response 503 ex_no_page # []
   \<and> list_all testnet_more [Response 200 ex_first_page]
   \<and> list_all troubleshoot_more [Response 200 ex_first_page]
   \<and> balance_answer ex_fetch_first_page_500 = Inr 0
   \<and> int_true_div 0 (10 ^ 18) = Inr 0
   \<and> page_answers ex_fetch_first_page_500 = [] @ Response 500 ex_no_page # []
   \<and> (\<exists>ev. testnet_fetch_trending_nfts empty_cache 0 ex_fetch_partial_0 =
          Some (\<lparr>trending_nfts = Some (Frame [ex_row_traits]), last_fetched = Some 0\<rparr>,
                (ev, Inr (Frame [ex_row_traits])))
        \<and> length (requests_of ev) = 2)
   \<and> testnet_fetch_trending_nfts
        \<lparr>trending_nfts = Some (Frame [ex_row_traits]), last_fetched = Some 0\<rparr> 599
        ex_fetch_two_0 =
      Some (\<lparr>trending_nfts = Some (Frame [ex_row_traits]), last_fetched = Some 0\<rparr>,
            ([LogInfo Using_cached], Inr (Frame [ex_row_traits])))
   \<and> (\<exists>ev. troubleshoot_fetch_trending_nfts empty_cache 0 ex_fetch_partial =
          Some (\<lparr>trending_nfts = Some (Frame [ex_row]), last_fetched = Some 0\<rparr>,
                (ev, Inr (Frame [ex_row])))
        \<and> length (requests_of ev) = 2)
   \<and> troubleshoot_fetch_trending_nfts
        \<lparr>trending_nfts = Some (Frame [ex_row]), last_fetched = Some 0\<rparr> 599 ex_fetch_two =
      Some (\<lparr>trending_nfts = Some (Frame [ex_row]), last_fetched = Some 0\<rparr>,
            ([LogInfo Using_cached], Inr (Frame [ex_row])))
   \<and> (\<exists>ev. testnet_fetch_trending_nfts empty_cache 0 ex_fetch_first_page_500 =
          Some (\<lparr>trending_nfts = Some EmptyFrame, last_fetched = Some 0\<rparr>,
                (ev, Inr EmptyFrame))
        \<and> length (requests_of ev) = 1)
   \<and> testnet_fetch_trending_nfts
        \<lparr>trending_nfts = Some EmptyFrame, last_fetched = Some 0\<rparr> 599 ex_fetch_two_0 =
      Some (\<lparr>trending_nfts = Some EmptyFrame, last_fetched = Some 0\<rparr>,
            ([LogInfo Using_cached], Inr EmptyFrame))
   \<and> (\<exists>ev. troubleshoot_fetch_trending_nfts empty_cache 0 ex_fetch_first_page_500 =
          Some (\<lparr>trending_nfts = Some EmptyFrame, last_fetched = Some 0\<rparr>,
                (ev, Inr EmptyFrame))
        \<and> length (requests_of ev) = 1)
   \<and> troubleshoot_fetch_trending_nfts
        \<lparr>trending_nfts = Some EmptyFrame, last_fetched = Some 0\<rparr> 599 ex_fetch_two =
      Some (\<lparr>trending_nfts = Some EmptyFrame, last_fetched = Some 0\<rparr>,
            ([LogInfo Using_cached], Inr EmptyFrame))"
proof -
  have m1: "cache_check (empty_cache :: nft_traits cache) 0 = Inr None"
    by (simp add: cache_check_def empty_cache_def)
  have m2: "cache_check (empty_cache :: nft cache) 0 = Inr None"
    by (simp add: cache_check_def empty_cache_def)
  have within: "(599 :: rat) - 0 < CACHE_EXPIRATION"
    by (simp add: CACHE_EXPIRATION_def)
  have b0: "balance_answer ex_fetch_partial_0 = Inr 0"
    and p0: "page_answers ex_fetch_partial_0 =
               [Response 200 ex_first_page] @ Response 503 ex_no_page # []"
    and b1: "balance_answer ex_fetch_partial = Inr (10 ^ 19)"
    and p1: "page_answers ex_fetch_partial =
               [Response 200 ex_first_page] @ Response 503 ex_no_page # []"
    and b2: "balance_answer ex_fetch_first_page_500 = Inr 0"
    and p2: "page_answers ex_fetch_first_page_500 = [] @ Response 500 ex_no_page # []"
    by (simp_all add: ex_fetch_partial_def ex_fetch_partial_0_def ex_fetch_first_page_500_def)
  have d1: "int_true_div (10 ^ 19) (10 ^ 18) = Inr 10"
    and d2: "int_true_div 0 (10 ^ 18) = Inr 0"
    by (simp_all add: float_eval)
  have more: "list_all testnet_more [Response 200 ex_first_page]"
      "list_all troubleshoot_more [Response 200 ex_first_page]"
    by (simp_all add: ex_first_page_def)
  have none: "list_all testnet_more []" "list_all troubleshoot_more []"
    by simp_all
  have s: "(503 :: int) \<noteq> 200" "(500 :: int) \<noteq> 200"
    by simp_all
  have f1: "testnet_frame [Response 200 ex_first_page] = Frame [ex_row_traits]"
    and f2: "troubleshoot_frame [Response 200 ex_first_page] = Frame [ex_row]"
    and f3: "testnet_frame [] = EmptyFrame"
    and f4: "troubleshoot_frame [] = EmptyFrame"
    by (simp_all add: testnet_frame_def troubleshoot_frame_def pd_DataFrame_def
          testnet_row_def troubleshoot_row_def wei_to_eth_def ex_defs)
  note partial = failed_fetch_is_cached
    [where C = empty_cache and D = empty_cache and t = 0 and w = ex_fetch_partial_0
       and pre = "[Response 200 ex_first_page]" and status = 503 and data = ex_no_page
       and rest = "[]" and t' = 599 and w' = ex_fetch_two_0
       and v = ex_fetch_partial and b = "10 ^ 19" and wallet_balance = 10
       and pre' = "[Response 200 ex_first_page]" and status' = 503 and data' = ex_no_page
       and rest' = "[]" and v' = ex_fetch_two]
  note first = failed_fetch_is_cached
    [where C = empty_cache and D = empty_cache and t = 0 and w = ex_fetch_first_page_500
       and pre = "[]" and status = 500 and data = ex_no_page
       and rest = "[]" and t' = 599 and w' = ex_fetch_two_0
       and v = ex_fetch_first_page_500 and b = 0 and wallet_balance = 0
       and pre' = "[]" and status' = 500 and data' = ex_no_page
       and rest' = "[]" and v' = ex_fetch_two]
  from partial m1 m2 b0 p0 b1 p1 d1 more s within
  have r1: "(\<exists>ev. testnet_fetch_trending_nfts empty_cache 0 ex_fetch_partial_0 =
          Some (\<lparr>trending_nfts = Some (Frame [ex_row_traits]), last_fetched = Some 0\<rparr>,
                (ev, Inr (Frame [ex_row_traits])))
        \<and> length (requests_of ev) = 2)
   \<and> testnet_fetch_trending_nfts
        \<lparr>trending_nfts = Some (Frame [ex_row_traits]), last_fetched = Some 0\<rparr> 599
        ex_fetch_two_0 =
      Some (\<lparr>trending_nfts = Some (Frame [ex_row_traits]), last_fetched = Some 0\<rparr>,
            ([LogInfo Using_cached], Inr (Frame [ex_row_traits])))
   \<and> (\<exists>ev. troubleshoot_fetch_trending_nfts empty_cache 0 ex_fetch_partial =
          Some (\<lparr>trending_nfts = Some (Frame [ex_row]), last_fetched = Some 0\<rparr>,
                (ev, Inr (Frame [ex_row])))
        \<and> length (requests_of ev) = 2)
   \<and> troubleshoot_fetch_trending_nfts
        \<lparr>trending_nfts = Some (Frame [ex_row]), last_fetched = Some 0\<rparr> 599 ex_fetch_two =
      Some (\<lparr>trending_nfts = Some (Frame [ex_row]), last_fetched = Some 0\<rparr>,
            ([LogInfo Using_cached], Inr (Frame [ex_row])))"
    unfolding f1 f2 by (simp add: numeral_2_eq_2)
  from first m1 m2 b2 p2 d2 none s within
  have r2: "(\<exists>ev. testnet_fetch_trending_nfts empty_cache 0 ex_fetch_first_page_500 =
          Some (\<lparr>trending_nfts = Some EmptyFrame, last_fetched = Some 0\<rparr>,
                (ev, Inr EmptyFrame))
        \<and> length (requests_of ev) = 1)
   \<and> testnet_fetch_trending_nfts
        \<lparr>trending_nfts = Some EmptyFrame, last_fetched = Some 0\<rparr> 599 ex_fetch_two_0 =
      Some (\<lparr>trending_nfts = Some EmptyFrame, last_fetched = Some 0\<rparr>,
            ([LogInfo Using_cached], Inr EmptyFrame))
   \<and> (\<exists>ev. troubleshoot_fetch_trending_nfts empty_cache 0 ex_fetch_first_page_500 =
          Some (\<lparr>trending_nfts = Some EmptyFrame, last_fetched = Some 0\<rparr>,
                (ev, Inr EmptyFrame))
        \<and> length (requests_of ev) = 1)
   \<and> troubleshoot_fetch_trending_nfts
        \<lparr>trending_nfts = Some EmptyFrame, last_fetched = Some 0\<rparr> 599 ex_fetch_two =
      Some (\<lparr>trending_nfts = Some EmptyFrame, last_fetched = Some 0\<rparr>,
            ([LogInfo Using_cached], Inr EmptyFrame))"
    unfolding f3 f4 by simp
  from m1 m2 b0 p0 b1 p1 b2 p2 d1 d2 more r1 r2 show ?thesis
    by blast
qed

section \<open>The trade loop: a failure on the first page\<close>

text \<open>
  In \<^verbatim>\<open>troubleshoot.py\<close>, a pass whose fetch meets a status other than 200 on the first
  page gets the empty frame, skips scoring, buying and relisting, and goes to the sleep.
\<close>

lemma troubleshoot_first_page_failure:
  assumes "cache_check C (now_answer w) = Inr None"
      and "balance_answer (fetch_answers w) = Inr b"
      and "int_true_div b (10 ^ 18) = Inr wallet_balance"
      and "page_answers (fetch_answers w) = Response status data # rest"
      and "status \<noteq> 200"
  shows "troubleshoot_cycle a C w =
     Some (\<lparr>trending_nfts = Some EmptyFrame, last_fetched = Some (now_answer w)\<rparr>,
       ([LogInfo Starting_monitoring, GetBalance,
         LogInfo (Wallet_balance wallet_balance
                    (float_times wallet_balance SPENDING_LIMIT_PERCENTAGE)),
         HttpGet (CursorRequest None), LogError (Api_call_failed status),
         LogInfo Fetched_new, LogInfo Cycle_complete, Sleep 60], Inr ()))"
  using assms
  by (simp add: troubleshoot_cycle_def troubleshoot_fetch_trending_nfts_def
        troubleshoot_get_wallet_balance_cases Let_def pd_DataFrame_def df_empty_def
        leaf_defs io_eval)

text \<open>
  Claim C7 at a first page answered with status 500, in \<^verbatim>\<open>testnet.py\<close> (with an empty
  wallet): the fetch returns the frame without columns, \<^verbatim>\<open>filter_by_traits\<close> raises
  \<^verbatim>\<open>KeyError\<close> on it, nothing in \<^verbatim>\<open>monitor_and_trade\<close> handles that, and the process
  ends before the sleep; the pass that would follow never starts.
\<close>

theorem testnet_first_page_failure_ends_process:
  "testnet_monitor_and_trade ''0xme'' empty_cache [ex_cycle_first_page_500, ex_cycle_ok] =
     Some ([LogInfo Starting_monitoring, GetBalance, LogInfo (Wallet_balance 0 0),
            HttpGet (OffsetRequest 0 0), LogError (Api_call_failed 500),
            LogInfo Fetched_new, LogInfo (Retrieved 0)],
           Crashed (KeyError ''traits''))"
  by (simp add: fetch_eval cycle_eval ex_defs)

section \<open>The trade loop: which errors end the process\<close>

lemma troubleshoot_execute_buy_returns:
  "returns (troubleshoot_execute_buy a w tok price)"
  unfolding troubleshoot_execute_buy_def
  by (intro returns_intros)

lemma troubleshoot_relist_nft_returns:
  "returns (troubleshoot_relist_nft w tok resale_price contract)"
  unfolding troubleshoot_relist_nft_def Let_def
  by (intro returns_intros)

text \<open>
  Once the fetch of \<^verbatim>\<open>troubleshoot.py\<close> has returned a frame, the pass ends with its
  last log line and the sleep, whatever the node and the marketplace answer to the buy and
  to the relist.
\<close>

lemma troubleshoot_cycle_after_fetch:
  assumes "troubleshoot_fetch_trending_nfts C (now_answer w) (fetch_answers w) =
             Some (C', (ev, Inr df))"
  shows "\<exists>ev'. troubleshoot_cycle a C w =
           Some (C', (ev' @ [LogInfo Cycle_complete, Sleep 60], Inr ()))"
proof -
  let ?body = "(if \<not> df_empty df then
                 io_bind (io_emit (LogInfo (Retrieved (df_len df)))) (\<lambda>_.
                 io_bind (io_pure (calculate_profitability df)) (\<lambda>scored_nfts.
                 io_bind (io_pure (profitable_nfts scored_nfts)) (\<lambda>profitable.
                 io_bind (io_emit (LogInfo (Identified (df_len profitable)))) (\<lambda>_.
                 case rows profitable of
                   [] \<Rightarrow> io_return ()
                 | top_nft # _ \<Rightarrow>
                     io_bind (troubleshoot_execute_buy a (buy_answers w)
                                (token_id (listing top_nft)) (floor_price (listing top_nft)))
                       (\<lambda>tx_hash.
                     if tx_hash \<noteq> ''Exceeds spending limit'' then
                       io_bind (io_emit (LogInfo (Purchased (token_id (listing top_nft))
                                                    (floor_price (listing top_nft))))) (\<lambda>_.
                       io_bind (troubleshoot_relist_nft (relist_answers w)
                                  (token_id (listing top_nft)) (potential_profit top_nft)
                                  (contract_address (listing top_nft))) (\<lambda>relist_response.
                       if truthy relist_response
                       then io_emit (LogInfo Successfully_relisted)
                       else io_emit (LogError
                              (Failed_relist_token (token_id (listing top_nft))))))
                     else io_return ())))))
               else io_return ())"
  have "returns ?body"
  proof (cases df)
    case EmptyFrame
    then show ?thesis by (simp add: df_empty_def returns_leaf)
  next
    case (Frame rs)
    show ?thesis
      unfolding Frame calculate_profitability_def profitable_nfts_def dataframe.case
        io_bind_pure_Inr
      by (intro returns_intros troubleshoot_execute_buy_returns troubleshoot_relist_nft_returns)
  qed
  then obtain evb where "?body = (evb, Inr ())"
    by (auto dest: returns_value)
  then show ?thesis
    using assms by (simp add: troubleshoot_cycle_def io_eval leaf_defs)
qed

text \<open>
  Claim C2, as stated, fails: in \<^verbatim>\<open>troubleshoot.py\<close> a listing request that raises (here a
  refused connection) is a runtime error inside the loop, and it ends the process with
  status 1; the pass that would follow never starts.
\<close>

theorem fetch_exception_ends_process:
  "troubleshoot_monitor_and_trade ''0xme'' empty_cache [ex_cycle_refused, ex_cycle_ok] =
     Some ([LogInfo Starting_monitoring, GetBalance, LogInfo (Wallet_balance 10 (5 / 2)),
            HttpGet (CursorRequest None),
            LogError (Unexpected_error (Raised ''Connection refused''))],
           Exited 1)"
  by (simp add: fetch_eval cycle_eval ex_defs)

text \<open>
  Claim C2, amended, for \<^verbatim>\<open>troubleshoot.py\<close>. \<^verbatim>\<open>execute_buy\<close> and \<^verbatim>\<open>relist_nft\<close> never
  raise: a spend-limit rejection, an exception of a node call and a failed or refused
  relist are caught inside them and end in a returned value. So when \<^verbatim>\<open>fetch_trending_nfts\<close> returns a frame (a
  status other than 200 included), the pass ends with the sleep and the loop goes on with
  the next pass. When \<^verbatim>\<open>fetch_trending_nfts\<close> raises (the balance read or a listing
  request fails), the handler of the loop logs the exception and the process exits with
  status 1.
\<close>

theorem troubleshoot_error_containment:
  assumes "troubleshoot_fetch_trending_nfts C (now_answer w) (fetch_answers w) =
             Some (C', (ev, r))"
  shows "returns (troubleshoot_execute_buy a bw tok price)
       \<and> returns (troubleshoot_relist_nft rw tok resale_price contract)
       \<and> (case r of
            Inr df \<Rightarrow>
              (\<exists>ev'. troubleshoot_cycle a C w =
                        Some (C', (ev' @ [LogInfo Cycle_complete, Sleep 60], Inr ()))
                 \<and> troubleshoot_monitor_and_trade a C (w # ws) =
                     map_option (\<lambda>(ev2, p). ((ev' @ [LogInfo Cycle_complete, Sleep 60]) @ ev2, p))
                       (troubleshoot_monitor_and_trade a C' ws))
          | Inl e \<Rightarrow>
              troubleshoot_monitor_and_trade a C (w # ws) =
                Some (LogInfo Starting_monitoring # ev @ [LogError (Unexpected_error e)],
                      Exited 1))"
proof (intro conjI)
  show "returns (troubleshoot_execute_buy a bw tok price)"
    by (rule troubleshoot_execute_buy_returns)
  show "returns (troubleshoot_relist_nft rw tok resale_price contract)"
    by (rule troubleshoot_relist_nft_returns)
  show "case r of
          Inr df \<Rightarrow>
            (\<exists>ev'. troubleshoot_cycle a C w =
                      Some (C', (ev' @ [LogInfo Cycle_complete, Sleep 60], Inr ()))
               \<and> troubleshoot_monitor_and_trade a C (w # ws) =
                   map_option (\<lambda>(ev2, p). ((ev' @ [LogInfo Cycle_complete, Sleep 60]) @ ev2, p))
                     (troubleshoot_monitor_and_trade a C' ws))
        | Inl e \<Rightarrow>
            troubleshoot_monitor_and_trade a C (w # ws) =
              Some (LogInfo Starting_monitoring # ev @ [LogError (Unexpected_error e)],
                    Exited 1)"
  proof (cases r)
    case (Inl e)
    with assms have "troubleshoot_cycle a C w =
        Some (C', (LogInfo Starting_monitoring # ev, Inl e))"
      by (simp add: troubleshoot_cycle_def io_eval leaf_defs)
    with Inl show ?thesis by simp
  next
    case (Inr df)
    with assms troubleshoot_cycle_after_fetch [of C w C' ev df a]
    obtain ev' where "troubleshoot_cycle a C w =
        Some (C', (ev' @ [LogInfo Cycle_complete, Sleep 60], Inr ()))"
      by blast
    with Inr show ?thesis by simp
  qed
qed

text \<open>
  Two instances: the pass in which the broadcast of the purchase fails goes on to the
  next pass; the pass in which the listing request fails ends the process.
\<close>

theorem troubleshoot_error_containment_witness:
  "troubleshoot_fetch_trending_nfts empty_cache (now_answer ex_cycle_send_fails)
       (fetch_answers ex_cycle_send_fails) =
     Some (\<lparr>trending_nfts = Some (Frame [ex_row]), last_fetched = Some 0\<rparr>,
       ([GetBalance, LogInfo (Wallet_balance 10 (5 / 2)), HttpGet (CursorRequest None),
         LogInfo Fetched_new], Inr (Frame [ex_row])))
   \<and> returns (troubleshoot_execute_buy ''0xme'' ex_buy_send_fails ''1'' (Some 1))
   \<and> (\<exists>ev'. troubleshoot_cycle ''0xme'' empty_cache ex_cycle_send_fails =
         Some (\<lparr>trending_nfts = Some (Frame [ex_row]), last_fetched = Some 0\<rparr>,
               (ev' @ [LogInfo Cycle_complete, Sleep 60], Inr ()))
       \<and> troubleshoot_monitor_and_trade ''0xme'' empty_cache [ex_cycle_send_fails] =
           Some (ev' @ [LogInfo Cycle_complete, Sleep 60], Running))
   \<and> troubleshoot_fetch_trending_nfts empty_cache (now_answer ex_cycle_refused)
       (fetch_answers ex_cycle_refused) =
     Some (empty_cache,
       ([GetBalance, LogInfo (Wallet_balance 10 (5 / 2)), HttpGet (CursorRequest None)],
        Inl (Raised ''Connection refused'')))
   \<and> troubleshoot_monitor_and_trade ''0xme'' empty_cache [ex_cycle_refused] =
       Some ([LogInfo Starting_monitoring, GetBalance, LogInfo (Wallet_balance 10 (5 / 2)),
              HttpGet (CursorRequest None),
              LogError (Unexpected_error (Raised ''Connection refused''))], Exited 1)"
proof -
  have h1: "troubleshoot_fetch_trending_nfts empty_cache (now_answer ex_cycle_send_fails)
       (fetch_answers ex_cycle_send_fails) =
     Some (\<lparr>trending_nfts = Some (Frame [ex_row]), last_fetched = Some 0\<rparr>,
       ([GetBalance, LogInfo (Wallet_balance 10 (5 / 2)), HttpGet (CursorRequest None),
         LogInfo Fetched_new], Inr (Frame [ex_row])))"
    by (simp add: fetch_eval ex_defs)
  have h2: "troubleshoot_fetch_trending_nfts empty_cache (now_answer ex_cycle_refused)
       (fetch_answers ex_cycle_refused) =
     Some (empty_cache,
       ([GetBalance, LogInfo (Wallet_balance 10 (5 / 2)), HttpGet (CursorRequest None)],
        Inl (Raised ''Connection refused'')))"
    by (simp add: fetch_eval ex_defs)
  from troubleshoot_error_containment
    [OF h1, of "''0xme''" ex_buy_send_fails "''1''" "Some 1" ex_relist_ok "Some 1" "''0xabc''" "[]"]
    troubleshoot_error_containment
    [OF h2, of "''0xme''" ex_buy_send_fails "''1''" "Some 1" ex_relist_ok "Some 1" "''0xabc''" "[]"]
    h1 h2
  show ?thesis
    by simp
qed

end
